theory Spec2Isabelle
  imports Complex_Main "HOL-Library.Multiset"
begin

section \<open>JavaScript values, errors and strings\<close>

text \<open>
  The desk matcher (\<^verbatim>\<open>src/services/matcher.js\<close>) and the query parser
  (\<^verbatim>\<open>src/services/nlp.js\<close>) are embedded as HOL functions. A value produced by
  \<^verbatim>\<open>JSON.parse\<close> is a \<open>jsval\<close>; an object is the list of its own properties.
  A property read that finds nothing is \<open>None\<close> (JavaScript's \<^verbatim>\<open>undefined\<close>).
  Numbers are rationals: every comparison the matcher makes between two numbers of the
  data is exact, and the sign of a difference of two such numbers is the sign of the
  difference of the rationals.
\<close>

datatype jsval =
    JNull
  | JBool bool
  | JNum rat
  | JStr string
  | JArr "jsval list"
  | JObj "(string \<times> jsval) list"

datatype error = TypeError

text \<open>\<^verbatim>\<open>String.prototype.toLowerCase\<close> on the ASCII letters; every other byte is kept.\<close>

definition toLowerCase_char :: "char \<Rightarrow> char" where
  "toLowerCase_char c =
     (case map_of (zip ''ABCDEFGHIJKLMNOPQRSTUVWXYZ'' ''abcdefghijklmnopqrstuvwxyz'') c of
        Some l \<Rightarrow> l
      | None \<Rightarrow> c)"

definition toLowerCase :: "string \<Rightarrow> string" where
  "toLowerCase s = map toLowerCase_char s"

fun startsWith :: "string \<Rightarrow> string \<Rightarrow> bool" where
  "startsWith hs [] = True"
| "startsWith [] (n # ns) = False"
| "startsWith (h # hs) (n # ns) = (h = n \<and> startsWith hs ns)"

text \<open>\<^verbatim>\<open>String.prototype.includes\<close>: the needle occurs somewhere in the text.\<close>

fun includes_str :: "string \<Rightarrow> string \<Rightarrow> bool" where
  "includes_str [] n = (n = [])"
| "includes_str (h # hs) n = (startsWith (h # hs) n \<or> includes_str hs n)"

section \<open>The data model\<close>

text \<open>
  The JSON files under \<^verbatim>\<open>data/\<close> are parameters of the model. Timestamps
  (\<^verbatim>\<open>new Date(...)\<close> of an ISO string) are milliseconds since the epoch. Area
  identifiers are keys of plain objects used as maps; they are data identifiers such as
  \<^verbatim>\<open>area-002\<close>, never names that \<^verbatim>\<open>Object.prototype\<close> defines.
\<close>

record desk =
  desk_id :: string
  desk_type :: string
  area_id :: string
  desk_floor :: int
  zone :: string
  location_description :: "string option"
  features :: "string list"
  status :: string
  last_used :: int

record space =
  space_id :: string
  space_name :: string
  parent_id :: "string option"

record employee_pref =
  employee_id :: string
  emp_desk_preferences :: "string list option"
  emp_equipment_needs :: "string list option"
  emp_adjacency_preferences :: "string list option"
  emp_preferred_location :: "string option"
  emp_accessibility_needs :: "string option"

record policy =
  policy_id :: string

record occupancy =
  occ_area_id :: string
  occupancy_percentage :: rat

record metric =
  met_area_id :: string
  met_date :: int
  utilization_rate :: "rat option"

record sensor =
  sen_area_id :: string
  sen_status :: string
  last_reading :: int

record sensor_entry =
  entry_status :: string
  lastReading :: int

record dataset =
  desks :: "desk list"
  occupancy_data :: "occupancy list"
  spaces :: "space list"
  employee_preferences :: "employee_pref list"
  policies :: "policy list"
  metrics :: "metric list"
  sensors :: "sensor list"

section \<open>parseQuery\<close>

text \<open>
  The chat completion is the outside world. Either something inside the \<^verbatim>\<open>try\<close>
  block throws (the call itself, the read of the reply's content, or \<^verbatim>\<open>JSON.parse\<close>
  on text that is not JSON), or \<^verbatim>\<open>JSON.parse\<close> returns a value.
\<close>

datatype nlp_reply = TryThrew | Reply jsval

record parsed_query =
  team :: string
  desk_preferences :: "jsval list"
  equipment_needs :: "jsval list"
  preferred_days :: "jsval list"
  preferred_location :: string
  accessibility_needs :: "string option"
  adjacency_preferences :: "jsval list"

definition DEFAULT_PARSED :: parsed_query where
  "DEFAULT_PARSED =
     \<lparr> team = '''', desk_preferences = [], equipment_needs = [], preferred_days = [],
       preferred_location = '''', accessibility_needs = None, adjacency_preferences = [] \<rparr>"

text \<open>
  \<^verbatim>\<open>raw.name\<close>: reading a property of \<^verbatim>\<open>null\<close> throws; an object gives its own
  property; any other value has none of the seven names.
\<close>

fun getProp :: "jsval \<Rightarrow> string \<Rightarrow> error + jsval option" where
  "getProp JNull k = Inl TypeError"
| "getProp (JObj kvs) k = Inr (map_of kvs k)"
| "getProp v k = Inr None"

definition string_or :: "jsval option \<Rightarrow> string \<Rightarrow> string" where
  "string_or v dflt = (case v of Some (JStr s) \<Rightarrow> s | _ \<Rightarrow> dflt)"

definition array_or :: "jsval option \<Rightarrow> jsval list \<Rightarrow> jsval list" where
  "array_or v dflt = (case v of Some (JArr xs) \<Rightarrow> xs | _ \<Rightarrow> dflt)"

definition null_or_string :: "jsval option \<Rightarrow> string option \<Rightarrow> string option" where
  "null_or_string v dflt =
     (case v of Some JNull \<Rightarrow> None | Some (JStr s) \<Rightarrow> Some s | _ \<Rightarrow> dflt)"

text \<open>Reading one property after the other: the first read that throws ends the function.\<close>

fun and_then :: "error + 'a \<Rightarrow> ('a \<Rightarrow> error + 'b) \<Rightarrow> error + 'b" where
  "and_then (Inl err) f = Inl err"
| "and_then (Inr x) f = f x"

definition build_parsed :: "jsval \<Rightarrow> error + parsed_query" where
  "build_parsed raw =
     and_then (getProp raw ''team'') (\<lambda>t.
     and_then (getProp raw ''desk_preferences'') (\<lambda>dp.
     and_then (getProp raw ''equipment_needs'') (\<lambda>en.
     and_then (getProp raw ''preferred_days'') (\<lambda>pd.
     and_then (getProp raw ''preferred_location'') (\<lambda>pl.
     and_then (getProp raw ''accessibility_needs'') (\<lambda>an.
     and_then (getProp raw ''adjacency_preferences'') (\<lambda>ap.
       Inr \<lparr> team = string_or t (team DEFAULT_PARSED),
             desk_preferences = array_or dp (desk_preferences DEFAULT_PARSED),
             equipment_needs = array_or en (equipment_needs DEFAULT_PARSED),
             preferred_days = array_or pd (preferred_days DEFAULT_PARSED),
             preferred_location = string_or pl (preferred_location DEFAULT_PARSED),
             accessibility_needs = null_or_string an (accessibility_needs DEFAULT_PARSED),
             adjacency_preferences = array_or ap (adjacency_preferences DEFAULT_PARSED) \<rparr>)))))))"

text \<open>The \<^verbatim>\<open>catch\<close> block sets \<^verbatim>\<open>raw = {}\<close>; the object is built after it.\<close>

definition parseQuery :: "nlp_reply \<Rightarrow> error + parsed_query" where
  "parseQuery r = (case r of TryThrew \<Rightarrow> build_parsed (JObj []) | Reply raw \<Rightarrow> build_parsed raw)"

section \<open>matchDesks: the effective preferences\<close>

record effective =
  deskPreferences :: "jsval list"
  finalDeskType :: "string option"
  equipNeeds :: "jsval list"
  adjPrefs :: "jsval list"
  preferredLocation :: string
  accessibilityNeed :: string

definition employeePrefs :: "dataset \<Rightarrow> string option \<Rightarrow> employee_pref option" where
  "employeePrefs D employeeId =
     find (\<lambda>e. Some (employee_id e) = employeeId) (employee_preferences D)"

text \<open>\<^verbatim>\<open>employeePrefs.field || []\<close> and \<^verbatim>\<open>employeePrefs.field || ''\<close>.\<close>

definition stored_list ::
  "employee_pref option \<Rightarrow> (employee_pref \<Rightarrow> string list option) \<Rightarrow> jsval list" where
  "stored_list ep fld =
     (case ep of None \<Rightarrow> [] | Some e \<Rightarrow> (case fld e of None \<Rightarrow> [] | Some xs \<Rightarrow> map JStr xs))"

definition stored_string ::
  "employee_pref option \<Rightarrow> (employee_pref \<Rightarrow> string option) \<Rightarrow> string" where
  "stored_string ep fld =
     (case ep of None \<Rightarrow> '''' | Some e \<Rightarrow> (case fld e of None \<Rightarrow> '''' | Some s \<Rightarrow> s))"

definition resolveDeskType :: "jsval list \<Rightarrow> string option" where
  "resolveDeskType prefs =
     (case find (\<lambda>d. d \<in> set [JStr ''standing'', JStr ''regular'']) prefs of
        Some (JStr s) \<Rightarrow> Some s
      | _ \<Rightarrow> None)"

definition effectivePrefs :: "employee_pref option \<Rightarrow> parsed_query \<Rightarrow> effective" where
  "effectivePrefs ep parsed =
     (let baseDeskPrefs = stored_list ep emp_desk_preferences;
          baseEquipNeeds = stored_list ep emp_equipment_needs;
          baseAdjPrefs = stored_list ep emp_adjacency_preferences;
          baseLocation = stored_string ep emp_preferred_location;
          baseAccessibility = stored_string ep emp_accessibility_needs;
          deskPrefs = (if length (desk_preferences parsed) \<noteq> 0
                       then desk_preferences parsed else baseDeskPrefs)
      in \<lparr> deskPreferences = deskPrefs,
           finalDeskType = resolveDeskType deskPrefs,
           equipNeeds = (if length (equipment_needs parsed) \<noteq> 0
                         then equipment_needs parsed else baseEquipNeeds),
           adjPrefs = (if length (adjacency_preferences parsed) \<noteq> 0
                       then adjacency_preferences parsed else baseAdjPrefs),
           preferredLocation = (if preferred_location parsed \<noteq> ''''
                                then preferred_location parsed else baseLocation),
           accessibilityNeed = (case accessibility_needs parsed of
                                  None \<Rightarrow> baseAccessibility | Some s \<Rightarrow> s) \<rparr>)"

section \<open>matchDesks: the lookup maps\<close>

definition occMap :: "occupancy list \<Rightarrow> (string \<rightharpoonup> rat)" where
  "occMap rows = fold (\<lambda>r m. m(occ_area_id r \<mapsto> occupancy_percentage r)) rows Map.empty"

definition metricsMap :: "metric list \<Rightarrow> (string \<rightharpoonup> metric)" where
  "metricsMap rows =
     fold (\<lambda>m mp. case mp (met_area_id m) of
                     None \<Rightarrow> mp(met_area_id m \<mapsto> m)
                   | Some existing \<Rightarrow>
                       if met_date m > met_date existing then mp(met_area_id m \<mapsto> m) else mp)
          rows Map.empty"

definition sensorMap :: "sensor list \<Rightarrow> (string \<rightharpoonup> sensor_entry)" where
  "sensorMap rows =
     fold (\<lambda>s m. m(sen_area_id s \<mapsto> \<lparr> entry_status = sen_status s, lastReading = last_reading s \<rparr>))
          rows Map.empty"

section \<open>matchDesks: the cascading filters\<close>

definition availabilityOk :: "desk \<Rightarrow> bool" where
  "availabilityOk d = (\<not> (status d \<noteq> ''available''))"

definition deskTypeOk :: "effective \<Rightarrow> desk \<Rightarrow> bool" where
  "deskTypeOk e d = (case finalDeskType e of None \<Rightarrow> True | Some t \<Rightarrow> \<not> (desk_type d \<noteq> t))"

definition standingOk :: "effective \<Rightarrow> desk \<Rightarrow> bool" where
  "standingOk e d = (\<not> (desk_type d = ''standing'' \<and> JStr ''standing'' \<notin> set (deskPreferences e)))"

text \<open>The \<^verbatim>\<open>for (const need of equipNeeds)\<close> loop, leaving at the first missing feature.\<close>

fun equipmentOk_loop :: "jsval list \<Rightarrow> desk \<Rightarrow> bool" where
  "equipmentOk_loop [] d = True"
| "equipmentOk_loop (need # needs) d =
     (if \<not> (need \<in> set (map JStr (features d))) then False else equipmentOk_loop needs d)"

definition equipmentOk :: "effective \<Rightarrow> desk \<Rightarrow> bool" where
  "equipmentOk e d = equipmentOk_loop (equipNeeds e) d"

definition locationOk :: "dataset \<Rightarrow> effective \<Rightarrow> desk \<Rightarrow> bool" where
  "locationOk D e d =
     (if preferredLocation e \<noteq> '''' then
        (if zone d \<noteq> preferredLocation e then
           (case find (\<lambda>s. space_name s = zone d) (spaces D) of
              None \<Rightarrow> False
            | Some z \<Rightarrow>
                (case find (\<lambda>s. Some (space_id s) = parent_id z) (spaces D) of
                   None \<Rightarrow> False
                 | Some fl \<Rightarrow> \<not> (space_name fl \<noteq> preferredLocation e)))
         else True)
      else True)"

definition hasPolicy :: "dataset \<Rightarrow> string \<Rightarrow> bool" where
  "hasPolicy D pid = (find (\<lambda>p. policy_id p = pid) (policies D) \<noteq> None)"

definition capacityOk :: "dataset \<Rightarrow> desk \<Rightarrow> bool" where
  "capacityOk D d =
     (\<not> (hasPolicy D ''POL-005'' \<and>
         (case occMap (occupancy_data D) (area_id d) of None \<Rightarrow> False | Some pct \<Rightarrow> pct \<ge> 80)))"

text \<open>
  The elapsed time is a whole number of milliseconds, so the quotient by 3600000 is below
  4 exactly when the elapsed time is below 14400000 ms, in floating point as in the
  rationals.
\<close>

definition sanitizationOk :: "dataset \<Rightarrow> int \<Rightarrow> desk \<Rightarrow> bool" where
  "sanitizationOk D now d =
     (if hasPolicy D ''POL-002'' then
        (let hoursSinceLastUse = (of_int (now - last_used d) :: rat) / (1000 * 60 * 60)
         in \<not> (hoursSinceLastUse < 4))
      else True)"

definition accessibilityOk :: "effective \<Rightarrow> desk \<Rightarrow> bool" where
  "accessibilityOk e d =
     (if accessibilityNeed e \<noteq> '''' then
        (let desc = toLowerCase (case location_description d of None \<Rightarrow> '''' | Some s \<Rightarrow> s)
         in \<not> (accessibilityNeed e \<notin> set (features d) \<and> \<not> includes_str desc (accessibilityNeed e)))
      else True)"

text \<open>
  The sensor check computes the age of the last reading and then assigns 0 to it
  (\<^verbatim>\<open>ageHours = 0\<close>) before the comparison with one hour.
\<close>

definition sensorOk :: "dataset \<Rightarrow> int \<Rightarrow> desk \<Rightarrow> bool" where
  "sensorOk D now d =
     (case sensorMap (sensors D) (area_id d) of
        None \<Rightarrow> True
      | Some sn \<Rightarrow>
          (if entry_status sn \<noteq> ''active'' then False
           else (let ageHours = (of_int (now - lastReading sn) :: rat) / (1000 * 60 * 60);
                     ageHours = (0 :: rat)
                 in \<not> (ageHours > 1))))"

definition passesFilters :: "dataset \<Rightarrow> int \<Rightarrow> effective \<Rightarrow> desk \<Rightarrow> bool" where
  "passesFilters D now e d =
     (if \<not> availabilityOk d then False
      else if \<not> deskTypeOk e d then False
      else if \<not> standingOk e d then False
      else if \<not> equipmentOk e d then False
      else if \<not> locationOk D e d then False
      else if \<not> capacityOk D d then False
      else if \<not> sanitizationOk D now d then False
      else if \<not> accessibilityOk e d then False
      else if \<not> sensorOk D now d then False
      else True)"

definition candidates :: "dataset \<Rightarrow> int \<Rightarrow> effective \<Rightarrow> desk list" where
  "candidates D now e = filter (passesFilters D now e) (desks D)"

section \<open>matchDesks: partition, ranking and output\<close>

text \<open>
  \<^verbatim>\<open>adjPrefs.some(pref => d.zone.toLowerCase().includes(pref.toLowerCase()))\<close>:
  the scan stops at the first token that matches; a token that is not a string has no
  \<^verbatim>\<open>toLowerCase\<close> and the call throws.
\<close>

fun isAdjacent :: "jsval list \<Rightarrow> desk \<Rightarrow> error + bool" where
  "isAdjacent [] d = Inr False"
| "isAdjacent (JStr p # ps) d =
     (if includes_str (toLowerCase (zone d)) (toLowerCase p) then Inr True else isAdjacent ps d)"
| "isAdjacent (v # ps) d = Inl TypeError"

fun partition_adj :: "jsval list \<Rightarrow> desk list \<Rightarrow> error + (desk list \<times> desk list)" where
  "partition_adj prefs [] = Inr ([], [])"
| "partition_adj prefs (d # ds) =
     (case isAdjacent prefs d of
        Inl err \<Rightarrow> Inl err
      | Inr b \<Rightarrow>
          (case partition_adj prefs ds of
             Inl err \<Rightarrow> Inl err
           | Inr (adjList, otherList) \<Rightarrow>
               if b then Inr (d # adjList, otherList) else Inr (adjList, d # otherList)))"

definition matchCount :: "jsval list \<Rightarrow> desk \<Rightarrow> nat" where
  "matchCount needs d = length (filter (\<lambda>n. n \<in> set (map JStr (features d))) needs)"

definition utilOf :: "dataset \<Rightarrow> desk \<Rightarrow> rat" where
  "utilOf D d =
     (case metricsMap (metrics D) (area_id d) of
        None \<Rightarrow> 1
      | Some m \<Rightarrow> (case utilization_rate m of None \<Rightarrow> 1 | Some u \<Rightarrow> u))"

text \<open>The comparator handed to \<^verbatim>\<open>Array.prototype.sort\<close>; it returns a number.\<close>

definition compareDesks :: "dataset \<Rightarrow> effective \<Rightarrow> desk \<Rightarrow> desk \<Rightarrow> rat" where
  "compareDesks D e a b =
     (let matchA = matchCount (equipNeeds e) a;
          matchB = matchCount (equipNeeds e) b
      in if matchB \<noteq> matchA then of_int (int matchB - int matchA)
         else (let recencyDiff = last_used a - last_used b
               in if recencyDiff \<noteq> 0 then of_int recencyDiff
                  else utilOf D a - utilOf D b))"

text \<open>
  \<^verbatim>\<open>Array.prototype.sort\<close> is stable (ECMAScript 2019, Node 11 and later; the
  repository asks for Node 18): for a comparator that is a consistent ordering the
  result is the one stable sorted arrangement, which insertion from the right computes.
\<close>

fun insert_by :: "('a \<Rightarrow> 'a \<Rightarrow> rat) \<Rightarrow> 'a \<Rightarrow> 'a list \<Rightarrow> 'a list" where
  "insert_by c x [] = [x]"
| "insert_by c x (y # ys) = (if c x y \<le> 0 then x # y # ys else y # insert_by c x ys)"

fun sort_by :: "('a \<Rightarrow> 'a \<Rightarrow> rat) \<Rightarrow> 'a list \<Rightarrow> 'a list" where
  "sort_by c [] = []"
| "sort_by c (x # xs) = insert_by c x (sort_by c xs)"

definition sorter :: "dataset \<Rightarrow> effective \<Rightarrow> desk list \<Rightarrow> desk list" where
  "sorter D e arr = sort_by (compareDesks D e) arr"

definition rankCandidates :: "dataset \<Rightarrow> int \<Rightarrow> effective \<Rightarrow> error + desk list" where
  "rankCandidates D now e =
     (case partition_adj (adjPrefs e) (candidates D now e) of
        Inl err \<Rightarrow> Inl err
      | Inr (adjList, otherList) \<Rightarrow> Inr (sorter D e adjList @ sorter D e otherList))"

definition matchDesks :: "dataset \<Rightarrow> int \<Rightarrow> string option \<Rightarrow> nlp_reply \<Rightarrow> error + desk list" where
  "matchDesks D now employeeId reply =
     (case parseQuery reply of
        Inl err \<Rightarrow> Inl err
      | Inr parsed \<Rightarrow> rankCandidates D now (effectivePrefs (employeePrefs D employeeId) parsed))"

section \<open>The cascade as a list of predicates\<close>

text \<open>
  The nine checks of the filter in the order of the source, and the evaluation of any
  list of checks that rejects at the first one that fails.
\<close>

definition predicates :: "dataset \<Rightarrow> int \<Rightarrow> effective \<Rightarrow> (desk \<Rightarrow> bool) list" where
  "predicates D now e =
     [availabilityOk, deskTypeOk e, standingOk e, equipmentOk e, locationOk D e,
      capacityOk D, sanitizationOk D now, accessibilityOk e, sensorOk D now]"

fun cascade_in_order :: "('a \<Rightarrow> bool) list \<Rightarrow> 'a \<Rightarrow> bool" where
  "cascade_in_order [] d = True"
| "cascade_in_order (p # ps) d = (if \<not> p d then False else cascade_in_order ps d)"

section \<open>Sample data\<close>

text \<open>
  A small data set in the shape of the repository's JSON files, used to run the matcher.
  The current time is 2025-05-07T09:00:00Z.
\<close>

definition demo_now :: int where
  "demo_now = 1746608400000"

definition desk_301 :: desk where
  "desk_301 =
     \<lparr> desk_id = ''D-301'', desk_type = ''regular'', area_id = ''area-001'', desk_floor = 3,
       zone = ''Engineering Zone'', location_description = Some ''Window side'',
       features = [''dual-monitors''], status = ''available'', last_used = 1746536400000 \<rparr>"

definition desk_304 :: desk where
  "desk_304 =
     \<lparr> desk_id = ''D-304'', desk_type = ''standing'', area_id = ''area-002'', desk_floor = 3,
       zone = ''Marketing Zone'', location_description = Some ''Near breakout area'',
       features = [''dual-monitors'', ''ergonomic-chair'', ''adjustable-height''],
       status = ''available'', last_used = 1746549900000 \<rparr>"

definition desk_305 :: desk where
  "desk_305 =
     \<lparr> desk_id = ''D-305'', desk_type = ''regular'', area_id = ''area-002'', desk_floor = 3,
       zone = ''Marketing Zone'', location_description = Some ''Wheelchair accessible aisle'',
       features = [''dual-monitors''], status = ''available'', last_used = 1746540000000 \<rparr>"

definition desk_306 :: desk where
  "desk_306 =
     \<lparr> desk_id = ''D-306'', desk_type = ''regular'', area_id = ''area-003'', desk_floor = 2,
       zone = ''Sales Zone'', location_description = None,
       features = [], status = ''available'', last_used = 1746604800000 \<rparr>"

definition desk_307 :: desk where
  "desk_307 =
     \<lparr> desk_id = ''D-307'', desk_type = ''regular'', area_id = ''area-004'', desk_floor = 2,
       zone = ''Sales Zone'', location_description = None,
       features = [''dual-monitors''], status = ''available'', last_used = 1746525600000 \<rparr>"

definition demo_data :: dataset where
  "demo_data =
     \<lparr> desks = [desk_301, desk_304, desk_305, desk_306, desk_307],
       occupancy_data =
         [\<lparr> occ_area_id = ''area-001'', occupancy_percentage = 45 \<rparr>,
          \<lparr> occ_area_id = ''area-002'', occupancy_percentage = 60 \<rparr>,
          \<lparr> occ_area_id = ''area-004'', occupancy_percentage = 85 \<rparr>],
       spaces =
         [\<lparr> space_id = ''floor-3'', space_name = ''3rd Floor'', parent_id = None \<rparr>,
          \<lparr> space_id = ''zone-mkt'', space_name = ''Marketing Zone'', parent_id = Some ''floor-3'' \<rparr>,
          \<lparr> space_id = ''zone-eng'', space_name = ''Engineering Zone'', parent_id = Some ''floor-3'' \<rparr>],
       employee_preferences =
         [\<lparr> employee_id = ''E-1'', emp_desk_preferences = Some [''standing''],
            emp_equipment_needs = Some [''dual-monitors''],
            emp_adjacency_preferences = Some [''Marketing''],
            emp_preferred_location = Some ''3rd Floor'', emp_accessibility_needs = None \<rparr>,
          \<lparr> employee_id = ''E-2'', emp_desk_preferences = None,
            emp_equipment_needs = Some [''dual-monitors''],
            emp_adjacency_preferences = Some [''marketing''],
            emp_preferred_location = None, emp_accessibility_needs = None \<rparr>],
       policies = [\<lparr> policy_id = ''POL-002'' \<rparr>, \<lparr> policy_id = ''POL-005'' \<rparr>],
       metrics =
         [\<lparr> met_area_id = ''area-001'', met_date = 1746403200000, utilization_rate = Some (3 / 4) \<rparr>,
          \<lparr> met_area_id = ''area-001'', met_date = 1746489600000, utilization_rate = Some (1 / 2) \<rparr>],
       sensors =
         [\<lparr> sen_area_id = ''area-002'', sen_status = ''active'', last_reading = 1746597600000 \<rparr>] \<rparr>"

text \<open>The effective preferences of a request without employee whose parsed query lists
  the given desk preferences and nothing else.\<close>

definition demo_prefs :: "jsval list \<Rightarrow> effective" where
  "demo_prefs xs = effectivePrefs None (DEFAULT_PARSED\<lparr>desk_preferences := xs\<rparr>)"

text \<open>
  A second data set for the ranking: five available regular desks with the same
  equipment, four of them last used at the same time, in areas whose metrics have
  several records (area-A and area-B), two records of the same date (area-C) or no
  record (area-D). No policy, no sensor, no occupancy row.
\<close>

definition rank_desk :: "string \<Rightarrow> string \<Rightarrow> string \<Rightarrow> int \<Rightarrow> desk" where
  "rank_desk i a z t =
     \<lparr> desk_id = i, desk_type = ''regular'', area_id = a, desk_floor = 1,
       zone = z, location_description = None,
       features = [''dual-monitors''], status = ''available'', last_used = t \<rparr>"

definition rank_1 :: desk where
  "rank_1 = rank_desk ''R-1'' ''area-A'' ''Marketing Zone'' 1746536400000"

definition rank_2 :: desk where
  "rank_2 = rank_desk ''R-2'' ''area-B'' ''Marketing Zone'' 1746536400000"

definition rank_3 :: desk where
  "rank_3 = rank_desk ''R-3'' ''area-C'' ''Sales Zone'' 1746536400000"

definition rank_4 :: desk where
  "rank_4 = rank_desk ''R-4'' ''area-D'' ''Sales Zone'' 1746536400000"

definition rank_5 :: desk where
  "rank_5 = rank_desk ''R-5'' ''area-D'' ''Sales Zone'' 1746500000000"

definition rank_data :: dataset where
  "rank_data =
     \<lparr> desks = [rank_1, rank_4, rank_2, rank_3, rank_5],
       occupancy_data = [],
       spaces = [],
       employee_preferences = [],
       policies = [],
       metrics =
         [\<lparr> met_area_id = ''area-A'', met_date = 1746403200000, utilization_rate = Some (1 / 5) \<rparr>,
          \<lparr> met_area_id = ''area-B'', met_date = 1746489600000, utilization_rate = Some (1 / 2) \<rparr>,
          \<lparr> met_area_id = ''area-A'', met_date = 1746489600000, utilization_rate = Some (9 / 10) \<rparr>,
          \<lparr> met_area_id = ''area-B'', met_date = 1746403200000, utilization_rate = Some (19 / 20) \<rparr>,
          \<lparr> met_area_id = ''area-C'', met_date = 1746489600000, utilization_rate = Some (3 / 10) \<rparr>,
          \<lparr> met_area_id = ''area-C'', met_date = 1746489600000, utilization_rate = Some (4 / 5) \<rparr>],
       sensors = [] \<rparr>"

definition rank_reply :: nlp_reply where
  "rank_reply =
     Reply (JObj [(''equipment_needs'', JArr [JStr ''dual-monitors'']),
                  (''adjacency_preferences'', JArr [JStr ''Marketing''])])"

definition rank_parsed :: parsed_query where
  "rank_parsed =
     DEFAULT_PARSED\<lparr> equipment_needs := [JStr ''dual-monitors''],
                     adjacency_preferences := [JStr ''Marketing''] \<rparr>"

section \<open>Properties of the sort\<close>

lemma set_insert_by: "set (insert_by c x ys) = insert x (set ys)"
  by (induction ys) auto

lemma mset_insert_by: "mset (insert_by c x ys) = add_mset x (mset ys)"
  by (induction ys) auto

lemma mset_sort_by: "mset (sort_by c xs) = mset xs"
  by (induction xs) (auto simp: mset_insert_by)

lemma set_sort_by: "set (sort_by c xs) = set xs"
  using mset_sort_by [of c xs] by (metis set_mset_mset)

text \<open>
  For a comparator that is total and transitive (read as "not after"), inserting keeps
  a list ordered, so the sorted list is ordered.
\<close>

lemma insert_by_sorted:
  assumes tot: "\<And>x y. c x y \<le> 0 \<or> c y x \<le> 0"
    and tr: "\<And>x y z. c x y \<le> 0 \<Longrightarrow> c y z \<le> 0 \<Longrightarrow> c x z \<le> 0"
    and srt: "sorted_wrt (\<lambda>a b. c a b \<le> 0) ys"
  shows "sorted_wrt (\<lambda>a b. c a b \<le> 0) (insert_by c x ys)"
  using srt
proof (induction ys)
  case Nil
  then show ?case by simp
next
  case (Cons y ys)
  show ?case
  proof (cases "c x y \<le> 0")
    case True
    then have "\<forall>z\<in>set ys. c x z \<le> 0"
      using Cons.prems tr by auto
    with True Cons.prems show ?thesis by simp
  next
    case False
    then have "c y x \<le> 0"
      using tot by blast
    with False Cons show ?thesis
      by (auto simp: set_insert_by)
  qed
qed

lemma sort_by_sorted:
  assumes tot: "\<And>x y. c x y \<le> 0 \<or> c y x \<le> 0"
    and tr: "\<And>x y z. c x y \<le> 0 \<Longrightarrow> c y z \<le> 0 \<Longrightarrow> c x z \<le> 0"
  shows "sorted_wrt (\<lambda>a b. c a b \<le> 0) (sort_by c xs)"
  by (induction xs) (simp_all add: insert_by_sorted [OF tot tr])

lemma compareDesks_le_iff:
  "compareDesks D e a b \<le> 0 \<longleftrightarrow>
     matchCount (equipNeeds e) b < matchCount (equipNeeds e) a \<or>
     (matchCount (equipNeeds e) a = matchCount (equipNeeds e) b \<and>
        (last_used a < last_used b \<or> (last_used a = last_used b \<and> utilOf D a \<le> utilOf D b)))"
  by (auto simp: compareDesks_def Let_def)

lemma sorter_sorted:
  "sorted_wrt (\<lambda>a b. compareDesks D e a b \<le> 0) (sorter D e arr)"
  unfolding sorter_def
proof (rule sort_by_sorted)
  show "compareDesks D e x y \<le> 0 \<or> compareDesks D e y x \<le> 0" for x y
    unfolding compareDesks_le_iff by linarith
  show "compareDesks D e x z \<le> 0"
    if "compareDesks D e x y \<le> 0" and "compareDesks D e y z \<le> 0" for x y z
    using that unfolding compareDesks_le_iff by linarith
qed

lemma mset_sorter: "mset (sorter D e arr) = mset arr"
  by (simp add: sorter_def mset_sort_by)

lemma set_sorter: "set (sorter D e arr) = set arr"
  by (simp add: sorter_def set_sort_by)

section \<open>Properties of the partition and of the pipeline\<close>

lemma isAdjacent_True:
  "isAdjacent ps d = Inr True \<Longrightarrow>
     \<exists>p. JStr p \<in> set ps \<and> includes_str (toLowerCase (zone d)) (toLowerCase p)"
  by (induction ps d rule: isAdjacent.induct) (auto split: if_splits)

lemma isAdjacent_False:
  "isAdjacent ps d = Inr False \<Longrightarrow>
     \<not> (\<exists>p. JStr p \<in> set ps \<and> includes_str (toLowerCase (zone d)) (toLowerCase p))"
  by (induction ps d rule: isAdjacent.induct) (auto split: if_splits)

lemma isAdjacent_strings: "\<exists>b. isAdjacent (map JStr xs) d = Inr b"
  by (induction xs) auto

lemma partition_adj_Inr:
  "partition_adj ps ds = Inr (adjList, otherList) \<Longrightarrow>
     (\<forall>d\<in>set adjList. isAdjacent ps d = Inr True) \<and>
     (\<forall>d\<in>set otherList. isAdjacent ps d = Inr False) \<and>
     mset adjList + mset otherList = mset ds"
proof (induction ds arbitrary: adjList otherList)
  case Nil
  then show ?case by simp
next
  case (Cons d ds)
  from Cons.prems obtain b a' o' where
    b: "isAdjacent ps d = Inr b" and rest: "partition_adj ps ds = Inr (a', o')"
    and res: "(adjList, otherList) = (if b then (d # a', o') else (a', d # o'))"
    by (auto split: sum.splits prod.splits if_splits)
  from Cons.IH [OF rest] b res show ?case
    by (cases b) auto
qed

lemma partition_adj_strings: "\<exists>a b. partition_adj (map JStr xs) ds = Inr (a, b)"
proof (induction ds)
  case Nil
  then show ?case by simp
next
  case (Cons d ds)
  then obtain a b where "partition_adj (map JStr xs) ds = Inr (a, b)" by blast
  moreover obtain t where "isAdjacent (map JStr xs) d = Inr t"
    using isAdjacent_strings by blast
  ultimately show ?case by simp
qed

lemma partition_adj_Nil: "partition_adj [] ds = Inr ([], ds)"
  by (induction ds) auto

lemma passesFilters_iff:
  "passesFilters D now e d \<longleftrightarrow>
     availabilityOk d \<and> deskTypeOk e d \<and> standingOk e d \<and> equipmentOk e d \<and> locationOk D e d \<and>
     capacityOk D d \<and> sanitizationOk D now d \<and> accessibilityOk e d \<and> sensorOk D now d"
  by (simp add: passesFilters_def)

lemma matchDesks_Inr:
  assumes "matchDesks D now eid reply = Inr res"
  obtains parsed adjList otherList where
    "parseQuery reply = Inr parsed"
    "partition_adj (adjPrefs (effectivePrefs (employeePrefs D eid) parsed))
        (candidates D now (effectivePrefs (employeePrefs D eid) parsed)) = Inr (adjList, otherList)"
    "res = sorter D (effectivePrefs (employeePrefs D eid) parsed) adjList
           @ sorter D (effectivePrefs (employeePrefs D eid) parsed) otherList"
  using assms
  by (auto simp: matchDesks_def rankCandidates_def split: sum.splits prod.splits)

lemma matchDesks_passes:
  assumes "matchDesks D now eid reply = Inr res" and "parseQuery reply = Inr parsed"
    and "d \<in> set res"
  shows "d \<in> set (desks D) \<and> passesFilters D now (effectivePrefs (employeePrefs D eid) parsed) d"
proof -
  let ?e = "effectivePrefs (employeePrefs D eid) parsed"
  from assms(1) obtain p a b where p: "parseQuery reply = Inr p"
    and part: "partition_adj (adjPrefs (effectivePrefs (employeePrefs D eid) p))
        (candidates D now (effectivePrefs (employeePrefs D eid) p)) = Inr (a, b)"
    and res: "res = sorter D (effectivePrefs (employeePrefs D eid) p) a
           @ sorter D (effectivePrefs (employeePrefs D eid) p) b"
    by (rule matchDesks_Inr)
  from p assms(2) have [simp]: "p = parsed" by simp
  from partition_adj_Inr [OF part] have "mset a + mset b = mset (candidates D now ?e)" by simp
  then have "set a \<union> set b = set (candidates D now ?e)"
    by (metis set_mset_mset set_mset_union)
  with res assms(3) have "d \<in> set (candidates D now ?e)"
    by (auto simp: set_sorter)
  then show ?thesis by (simp add: candidates_def)
qed

lemma hasPolicy_iff: "hasPolicy D pid \<longleftrightarrow> pid \<in> policy_id ` set (policies D)"
  by (auto simp: hasPolicy_def find_None_iff)

section \<open>Sanitization cooldown\<close>

text \<open>
  Claim C6. While policy \<^verbatim>\<open>POL-002\<close> is in the policy set, a desk whose
  \<^verbatim>\<open>last_used\<close> is less than four hours (14400000 ms) before the current time is in
  no result of \<open>matchDesks\<close>.
\<close>

theorem sanitization_cooldown_excludes:
  assumes "''POL-002'' \<in> policy_id ` set (policies D)"
    and "matchDesks D now employeeId reply = Inr res"
    and "now - last_used d < 4 * 60 * 60 * 1000"
  shows "d \<notin> set res"
proof
  assume d: "d \<in> set res"
  from assms(2) obtain parsed where "parseQuery reply = Inr parsed"
    by (auto simp: matchDesks_def split: sum.splits)
  from matchDesks_passes [OF assms(2) this d]
  have "sanitizationOk D now d" by (simp add: passesFilters_iff)
  with assms(1) have "\<not> ((of_int (now - last_used d) :: rat) / (1000 * 60 * 60) < 4)"
    by (simp add: sanitizationOk_def hasPolicy_iff)
  then have "\<not> ((of_int (now - last_used d) :: rat) < of_int 14400000)"
    by (simp add: divide_less_eq)
  then have "\<not> (now - last_used d < 14400000)"
    unfolding of_int_less_iff .
  with assms(3) show False by simp
qed

theorem sanitization_cooldown_excludes_witness:
  "''POL-002'' \<in> policy_id ` set (policies demo_data) \<and>
   matchDesks demo_data demo_now None TryThrew = Inr [desk_301, desk_305] \<and>
   demo_now - last_used desk_306 < 4 * 60 * 60 * 1000 \<and>
   desk_306 \<in> set (desks demo_data) \<and>
   desk_306 \<notin> set [desk_301, desk_305]"
proof -
  have h1: "''POL-002'' \<in> policy_id ` set (policies demo_data)"
    by (simp add: demo_data_def)
  have h2: "matchDesks demo_data demo_now None TryThrew = Inr [desk_301, desk_305]"
    by code_simp
  have h3: "demo_now - last_used desk_306 < 4 * 60 * 60 * 1000"
    by (simp add: demo_now_def desk_306_def)
  have h4: "desk_306 \<in> set (desks demo_data)"
    by (simp add: demo_data_def)
  from sanitization_cooldown_excludes [OF h1 h2 h3] h1 h2 h3 h4 show ?thesis by simp
qed

section \<open>Capacity policy and missing occupancy\<close>

lemma occ_fold_None:
  "fold (\<lambda>r m. m(occ_area_id r \<mapsto> occupancy_percentage r)) rows m0 k = None \<longleftrightarrow>
     m0 k = None \<and> k \<notin> occ_area_id ` set rows"
  by (induction rows arbitrary: m0) auto

lemma occ_fold_Some:
  "fold (\<lambda>r m. m(occ_area_id r \<mapsto> occupancy_percentage r)) rows m0 k = Some v \<Longrightarrow>
     m0 k = Some v \<or> (\<exists>r\<in>set rows. occ_area_id r = k \<and> occupancy_percentage r = v)"
proof (induction rows arbitrary: m0)
  case Nil
  then show ?case by simp
next
  case (Cons r rows)
  from Cons.IH [of "m0(occ_area_id r \<mapsto> occupancy_percentage r)"] Cons.prems
  show ?case by (auto split: if_splits)
qed

lemma occMap_None: "occMap rows k = None \<longleftrightarrow> k \<notin> occ_area_id ` set rows"
  by (simp add: occMap_def occ_fold_None)

lemma occMap_Some:
  "occMap rows k = Some v \<Longrightarrow> \<exists>r\<in>set rows. occ_area_id r = k \<and> occupancy_percentage r = v"
  using occ_fold_Some [of rows Map.empty k v] by (simp add: occMap_def)

text \<open>
  Claim C10. A desk whose area has no row in the occupancy snapshot passes the capacity
  check, also while policy \<^verbatim>\<open>POL-005\<close> is present; the capacity check rejects a
  desk only when the policy is present and the desk's area has a recorded occupancy of at
  least 80.
\<close>

theorem capacity_needs_recorded_occupancy:
  "(area_id d \<notin> occ_area_id ` set (occupancy_data D) \<longrightarrow> capacityOk D d) \<and>
   (\<not> capacityOk D d \<longrightarrow>
      ''POL-005'' \<in> policy_id ` set (policies D) \<and>
      (\<exists>r\<in>set (occupancy_data D). occ_area_id r = area_id d \<and> occupancy_percentage r \<ge> 80))"
proof (intro conjI impI)
  assume "area_id d \<notin> occ_area_id ` set (occupancy_data D)"
  then have "occMap (occupancy_data D) (area_id d) = None"
    by (simp add: occMap_None)
  then show "capacityOk D d"
    by (simp add: capacityOk_def)
next
  assume rej: "\<not> capacityOk D d"
  then show "''POL-005'' \<in> policy_id ` set (policies D)"
    by (simp add: capacityOk_def hasPolicy_iff)
  from rej obtain pct where "occMap (occupancy_data D) (area_id d) = Some pct" and "pct \<ge> 80"
    by (auto simp: capacityOk_def split: option.splits)
  with occMap_Some show "\<exists>r\<in>set (occupancy_data D). occ_area_id r = area_id d \<and> occupancy_percentage r \<ge> 80"
    by fastforce
qed

theorem capacity_needs_recorded_occupancy_witness:
  "''POL-005'' \<in> policy_id ` set (policies demo_data) \<and>
   area_id desk_306 \<notin> occ_area_id ` set (occupancy_data demo_data) \<and>
   capacityOk demo_data desk_306 \<and>
   \<not> capacityOk demo_data desk_307 \<and>
   (\<exists>r\<in>set (occupancy_data demo_data).
      occ_area_id r = area_id desk_307 \<and> occupancy_percentage r \<ge> 80)"
proof -
  have h0: "''POL-005'' \<in> policy_id ` set (policies demo_data)"
    by (simp add: demo_data_def)
  have h1: "area_id desk_306 \<notin> occ_area_id ` set (occupancy_data demo_data)"
    by (simp add: demo_data_def desk_306_def)
  have h2: "\<not> capacityOk demo_data desk_307"
    by code_simp
  from capacity_needs_recorded_occupancy [of desk_306 demo_data]
       capacity_needs_recorded_occupancy [of desk_307 demo_data] h0 h1 h2
  show ?thesis by blast
qed

section \<open>Adjacency partition\<close>

text \<open>
  Claim C8. The output of \<open>matchDesks\<close> is the adjacency-preferred desks followed by
  the others: a desk is adjacency-preferred when the lower-cased zone name contains a
  lower-cased adjacency token. Every desk that passed the filters is in exactly one of
  the two parts.
\<close>

theorem adjacency_preferred_first:
  assumes "matchDesks D now employeeId reply = Inr res"
    and "parseQuery reply = Inr parsed"
    and "e = effectivePrefs (employeePrefs D employeeId) parsed"
  shows "\<exists>adjRanked otherRanked.
           res = adjRanked @ otherRanked \<and>
           (\<forall>d\<in>set adjRanked.
              \<exists>p. JStr p \<in> set (adjPrefs e) \<and> includes_str (toLowerCase (zone d)) (toLowerCase p)) \<and>
           (\<forall>d\<in>set otherRanked.
              \<not> (\<exists>p. JStr p \<in> set (adjPrefs e) \<and> includes_str (toLowerCase (zone d)) (toLowerCase p))) \<and>
           mset adjRanked + mset otherRanked = mset (candidates D now e)"
proof -
  from assms(1) obtain p a b where p: "parseQuery reply = Inr p"
    and part: "partition_adj (adjPrefs (effectivePrefs (employeePrefs D employeeId) p))
        (candidates D now (effectivePrefs (employeePrefs D employeeId) p)) = Inr (a, b)"
    and res: "res = sorter D (effectivePrefs (employeePrefs D employeeId) p) a
           @ sorter D (effectivePrefs (employeePrefs D employeeId) p) b"
    by (rule matchDesks_Inr)
  from p assms(2,3) have e: "effectivePrefs (employeePrefs D employeeId) p = e" by simp
  note P = partition_adj_Inr [OF part, unfolded e]
  have "\<forall>d\<in>set (sorter D e a).
          \<exists>p. JStr p \<in> set (adjPrefs e) \<and> includes_str (toLowerCase (zone d)) (toLowerCase p)"
    using P isAdjacent_True unfolding set_sorter by blast
  moreover have "\<forall>d\<in>set (sorter D e b).
          \<not> (\<exists>p. JStr p \<in> set (adjPrefs e) \<and> includes_str (toLowerCase (zone d)) (toLowerCase p))"
    using P isAdjacent_False unfolding set_sorter by blast
  moreover have "mset (sorter D e a) + mset (sorter D e b) = mset (candidates D now e)"
    using P by (simp add: mset_sorter)
  ultimately show ?thesis
    using res e by blast
qed

theorem adjacency_preferred_first_witness:
  "matchDesks demo_data demo_now (Some ''E-2'') TryThrew = Inr [desk_305, desk_301] \<and>
   parseQuery TryThrew = Inr DEFAULT_PARSED \<and>
   (\<exists>adjRanked otherRanked.
      [desk_305, desk_301] = adjRanked @ otherRanked \<and>
      (\<forall>d\<in>set adjRanked.
         \<exists>p. JStr p \<in> set (adjPrefs (effectivePrefs (employeePrefs demo_data (Some ''E-2'')) DEFAULT_PARSED)) \<and>
             includes_str (toLowerCase (zone d)) (toLowerCase p)) \<and>
      (\<forall>d\<in>set otherRanked.
         \<not> (\<exists>p. JStr p \<in> set (adjPrefs (effectivePrefs (employeePrefs demo_data (Some ''E-2'')) DEFAULT_PARSED)) \<and>
             includes_str (toLowerCase (zone d)) (toLowerCase p))) \<and>
      mset adjRanked + mset otherRanked =
        mset (candidates demo_data demo_now (effectivePrefs (employeePrefs demo_data (Some ''E-2'')) DEFAULT_PARSED)))"
proof -
  have h1: "matchDesks demo_data demo_now (Some ''E-2'') TryThrew = Inr [desk_305, desk_301]"
    by code_simp
  have h2: "parseQuery TryThrew = Inr DEFAULT_PARSED"
    by code_simp
  from adjacency_preferred_first [OF h1 h2 refl] h1 h2 show ?thesis by blast
qed

section \<open>Ranking\<close>

lemma metricsMap_Nil: "metricsMap [] = Map.empty"
  by (simp add: metricsMap_def)

lemma metricsMap_snoc:
  "metricsMap (rows @ [r]) =
     (case metricsMap rows (met_area_id r) of
        None \<Rightarrow> (metricsMap rows)(met_area_id r \<mapsto> r)
      | Some existing \<Rightarrow>
          if met_date r > met_date existing then (metricsMap rows)(met_area_id r \<mapsto> r)
          else metricsMap rows)"
  unfolding metricsMap_def fold_append o_apply fold_Cons fold_Nil id_apply ..

lemma metricsMap_None: "metricsMap rows k = None \<longleftrightarrow> k \<notin> met_area_id ` set rows"
proof (induction rows rule: rev_induct)
  case Nil
  then show ?case by (simp add: metricsMap_Nil)
next
  case (snoc r rows)
  then show ?case
    by (auto simp: metricsMap_snoc split: option.splits)
qed

lemma metricsMap_Some:
  "metricsMap rows k = Some m \<Longrightarrow>
     \<exists>pre post. rows = pre @ m # post \<and> met_area_id m = k \<and>
       (\<forall>m'\<in>set pre. met_area_id m' = k \<longrightarrow> met_date m' < met_date m) \<and>
       (\<forall>m'\<in>set post. met_area_id m' = k \<longrightarrow> met_date m' \<le> met_date m)"
proof (induction rows arbitrary: m rule: rev_induct)
  case Nil
  then show ?case by (simp add: metricsMap_Nil)
next
  case (snoc r rows)
  show ?case
  proof (cases "met_area_id r = k")
    case False
    with snoc.prems have "metricsMap rows k = Some m"
      by (auto simp: metricsMap_snoc split: option.splits if_splits)
    from snoc.IH [OF this] obtain pre post where
      d: "rows = pre @ m # post" "met_area_id m = k"
         "\<forall>m'\<in>set pre. met_area_id m' = k \<longrightarrow> met_date m' < met_date m"
         "\<forall>m'\<in>set post. met_area_id m' = k \<longrightarrow> met_date m' \<le> met_date m"
      by blast
    have "rows @ [r] = pre @ m # (post @ [r])"
      using d(1) by simp
    moreover have "\<forall>m'\<in>set (post @ [r]). met_area_id m' = k \<longrightarrow> met_date m' \<le> met_date m"
      using d(4) False by auto
    ultimately show ?thesis
      using d(2,3) by blast
  next
    case True
    show ?thesis
    proof (cases "metricsMap rows k")
      case None
      with True snoc.prems have m: "m = r"
        by (simp add: metricsMap_snoc)
      from None have "k \<notin> met_area_id ` set rows"
        by (simp add: metricsMap_None)
      then have "\<forall>m'\<in>set rows. met_area_id m' = k \<longrightarrow> met_date m' < met_date m"
        by auto
      with m True show ?thesis
        by (intro exI [of _ rows] exI [of _ "[]"]) simp
    next
      case (Some existing)
      from snoc.IH [OF Some] obtain pre post where
        d: "rows = pre @ existing # post" "met_area_id existing = k"
           "\<forall>m'\<in>set pre. met_area_id m' = k \<longrightarrow> met_date m' < met_date existing"
           "\<forall>m'\<in>set post. met_area_id m' = k \<longrightarrow> met_date m' \<le> met_date existing"
        by blast
      show ?thesis
      proof (cases "met_date r > met_date existing")
        case newer: True
        with True Some snoc.prems have m: "m = r"
          by (simp add: metricsMap_snoc)
        have "\<forall>m'\<in>set rows. met_area_id m' = k \<longrightarrow> met_date m' < met_date r"
          using d newer by auto
        with m True show ?thesis
          by (intro exI [of _ rows] exI [of _ "[]"]) simp
      next
        case older: False
        with True Some snoc.prems have m: "m = existing"
          by (simp add: metricsMap_snoc)
        have "rows @ [r] = pre @ existing # (post @ [r])"
          using d(1) by simp
        moreover have "\<forall>m'\<in>set (post @ [r]). met_area_id m' = k \<longrightarrow> met_date m' \<le> met_date existing"
          using d(4) older by auto
        ultimately show ?thesis
          using d(2,3) m by blast
      qed
    qed
  qed
qed

lemma utilOf_no_row: "area_id d \<notin> met_area_id ` set (metrics D) \<Longrightarrow> utilOf D d = 1"
  by (simp add: utilOf_def metricsMap_None [THEN iffD2])

lemma utilOf_latest_row:
  assumes "area_id d \<in> met_area_id ` set (metrics D)"
  shows "\<exists>pre m post. metrics D = pre @ m # post \<and> met_area_id m = area_id d \<and>
           (\<forall>m'\<in>set pre. met_area_id m' = area_id d \<longrightarrow> met_date m' < met_date m) \<and>
           (\<forall>m'\<in>set post. met_area_id m' = area_id d \<longrightarrow> met_date m' \<le> met_date m) \<and>
           utilOf D d = (case utilization_rate m of None \<Rightarrow> 1 | Some u \<Rightarrow> u)"
proof -
  from assms obtain m where m: "metricsMap (metrics D) (area_id d) = Some m"
    using metricsMap_None [of "metrics D" "area_id d"] by (cases "metricsMap (metrics D) (area_id d)") auto
  then have "utilOf D d = (case utilization_rate m of None \<Rightarrow> 1 | Some u \<Rightarrow> u)"
    by (simp add: utilOf_def)
  with metricsMap_Some [OF m] show ?thesis by blast
qed

text \<open>
  Claim C7. The output is the sorted adjacency list followed by the sorted list of the
  others, and in each of the two, for a desk A before a desk B: A matches at least as
  many equipment needs as B; when the counts are equal, A was last used no later than B;
  when these are equal too, A's utilization is at most B's. The utilization of a desk is
  1 when the metrics have no row for the desk's area; otherwise it is the rate of the
  row of that area with the latest date, the first such row in the order of the data
  when several rows have that date (and 1 when that row has no rate).
\<close>

theorem ranking_within_partitions:
  assumes "matchDesks D now employeeId reply = Inr res"
    and "parseQuery reply = Inr parsed"
    and "e = effectivePrefs (employeePrefs D employeeId) parsed"
  shows "\<exists>adjList otherList.
           partition_adj (adjPrefs e) (candidates D now e) = Inr (adjList, otherList) \<and>
           res = sorter D e adjList @ sorter D e otherList \<and>
           (\<forall>part \<in> {sorter D e adjList, sorter D e otherList}.
              sorted_wrt (\<lambda>A B.
                 matchCount (equipNeeds e) A \<ge> matchCount (equipNeeds e) B \<and>
                 (matchCount (equipNeeds e) A = matchCount (equipNeeds e) B \<longrightarrow>
                    last_used A \<le> last_used B \<and>
                    (last_used A = last_used B \<longrightarrow> utilOf D A \<le> utilOf D B))) part) \<and>
           (\<forall>d. area_id d \<notin> met_area_id ` set (metrics D) \<longrightarrow> utilOf D d = 1) \<and>
           (\<forall>d. area_id d \<in> met_area_id ` set (metrics D) \<longrightarrow>
              (\<exists>pre m post. metrics D = pre @ m # post \<and> met_area_id m = area_id d \<and>
                 (\<forall>m'\<in>set pre. met_area_id m' = area_id d \<longrightarrow> met_date m' < met_date m) \<and>
                 (\<forall>m'\<in>set post. met_area_id m' = area_id d \<longrightarrow> met_date m' \<le> met_date m) \<and>
                 utilOf D d = (case utilization_rate m of None \<Rightarrow> 1 | Some u \<Rightarrow> u)))"
proof -
  let ?R = "\<lambda>A B.
                 matchCount (equipNeeds e) A \<ge> matchCount (equipNeeds e) B \<and>
                 (matchCount (equipNeeds e) A = matchCount (equipNeeds e) B \<longrightarrow>
                    last_used A \<le> last_used B \<and>
                    (last_used A = last_used B \<longrightarrow> utilOf D A \<le> utilOf D B))"
  from assms(1) obtain p a b where p: "parseQuery reply = Inr p"
    and part: "partition_adj (adjPrefs (effectivePrefs (employeePrefs D employeeId) p))
        (candidates D now (effectivePrefs (employeePrefs D employeeId) p)) = Inr (a, b)"
    and res: "res = sorter D (effectivePrefs (employeePrefs D employeeId) p) a
           @ sorter D (effectivePrefs (employeePrefs D employeeId) p) b"
    by (rule matchDesks_Inr)
  from p assms(2,3) have e: "effectivePrefs (employeePrefs D employeeId) p = e" by simp
  have ranked: "sorted_wrt ?R (sorter D e arr)" for arr
  proof (rule sorted_wrt_mono_rel [OF _ sorter_sorted])
    fix x y
    assume "compareDesks D e x y \<le> 0"
    then show "?R x y"
      unfolding compareDesks_le_iff by linarith
  qed
  have pr: "partition_adj (adjPrefs e) (candidates D now e) = Inr (a, b) \<and>
           res = sorter D e a @ sorter D e b \<and>
           (\<forall>part \<in> {sorter D e a, sorter D e b}. sorted_wrt ?R part)"
    using part res ranked unfolding e by simp
  have u1: "\<forall>d. area_id d \<notin> met_area_id ` set (metrics D) \<longrightarrow> utilOf D d = 1"
    using utilOf_no_row by blast
  have u2: "\<forall>d. area_id d \<in> met_area_id ` set (metrics D) \<longrightarrow>
              (\<exists>pre m post. metrics D = pre @ m # post \<and> met_area_id m = area_id d \<and>
                 (\<forall>m'\<in>set pre. met_area_id m' = area_id d \<longrightarrow> met_date m' < met_date m) \<and>
                 (\<forall>m'\<in>set post. met_area_id m' = area_id d \<longrightarrow> met_date m' \<le> met_date m) \<and>
                 utilOf D d = (case utilization_rate m of None \<Rightarrow> 1 | Some u \<Rightarrow> u))"
    using utilOf_latest_row by blast
  show ?thesis
    by (rule exI [of _ a], rule exI [of _ b]) (use pr u1 u2 in blast)
qed

theorem ranking_within_partitions_witness:
  "matchDesks rank_data demo_now None rank_reply = Inr [rank_2, rank_1, rank_5, rank_3, rank_4] \<and>
   parseQuery rank_reply = Inr rank_parsed \<and>
   partition_adj (adjPrefs (effectivePrefs (employeePrefs rank_data None) rank_parsed))
      (candidates rank_data demo_now (effectivePrefs (employeePrefs rank_data None) rank_parsed))
     = Inr ([rank_1, rank_2], [rank_4, rank_3, rank_5]) \<and>
   sorter rank_data (effectivePrefs (employeePrefs rank_data None) rank_parsed) [rank_1, rank_2]
     = [rank_2, rank_1] \<and>
   sorter rank_data (effectivePrefs (employeePrefs rank_data None) rank_parsed) [rank_4, rank_3, rank_5]
     = [rank_5, rank_3, rank_4] \<and>
   matchCount (equipNeeds (effectivePrefs (employeePrefs rank_data None) rank_parsed)) rank_1 = 1 \<and>
   matchCount (equipNeeds (effectivePrefs (employeePrefs rank_data None) rank_parsed)) rank_2 = 1 \<and>
   last_used rank_1 = last_used rank_2 \<and>
   utilOf rank_data rank_2 = 1 / 2 \<and> utilOf rank_data rank_1 = 9 / 10 \<and>
   last_used rank_5 < last_used rank_3 \<and> last_used rank_3 = last_used rank_4 \<and>
   utilOf rank_data rank_3 = 3 / 10 \<and>
   area_id rank_4 \<notin> met_area_id ` set (metrics rank_data) \<and>
   utilOf rank_data rank_4 = 1 \<and>
   sorted_wrt (\<lambda>A B.
      matchCount (equipNeeds (effectivePrefs (employeePrefs rank_data None) rank_parsed)) A
        \<ge> matchCount (equipNeeds (effectivePrefs (employeePrefs rank_data None) rank_parsed)) B \<and>
      (matchCount (equipNeeds (effectivePrefs (employeePrefs rank_data None) rank_parsed)) A
         = matchCount (equipNeeds (effectivePrefs (employeePrefs rank_data None) rank_parsed)) B \<longrightarrow>
         last_used A \<le> last_used B \<and>
         (last_used A = last_used B \<longrightarrow> utilOf rank_data A \<le> utilOf rank_data B)))
     [rank_5, rank_3, rank_4]"
proof -
  let ?e = "effectivePrefs (employeePrefs rank_data None) rank_parsed"
  have h1: "matchDesks rank_data demo_now None rank_reply = Inr [rank_2, rank_1, rank_5, rank_3, rank_4]"
    by code_simp
  have h2: "parseQuery rank_reply = Inr rank_parsed"
    by code_simp
  have h3: "partition_adj (adjPrefs ?e) (candidates rank_data demo_now ?e)
      = Inr ([rank_1, rank_2], [rank_4, rank_3, rank_5])"
    by code_simp
  have h4: "sorter rank_data ?e [rank_1, rank_2] = [rank_2, rank_1]"
    "sorter rank_data ?e [rank_4, rank_3, rank_5] = [rank_5, rank_3, rank_4]"
    by code_simp+
  have h5: "matchCount (equipNeeds ?e) rank_1 = 1" "matchCount (equipNeeds ?e) rank_2 = 1"
    by code_simp+
  have h6: "last_used rank_1 = last_used rank_2" "last_used rank_5 < last_used rank_3"
    "last_used rank_3 = last_used rank_4"
    by (simp_all add: rank_1_def rank_2_def rank_3_def rank_4_def rank_5_def rank_desk_def)
  have h7: "utilOf rank_data rank_2 = 1 / 2" "utilOf rank_data rank_1 = 9 / 10"
    "utilOf rank_data rank_3 = 3 / 10"
    by code_simp+
  have h8: "area_id rank_4 \<notin> met_area_id ` set (metrics rank_data)"
    by (simp add: rank_4_def rank_desk_def rank_data_def)
  from ranking_within_partitions [OF h1 h2 refl] obtain adjList otherList where
    T: "partition_adj (adjPrefs ?e) (candidates rank_data demo_now ?e) = Inr (adjList, otherList)"
       "\<forall>part \<in> {sorter rank_data ?e adjList, sorter rank_data ?e otherList}.
              sorted_wrt (\<lambda>A B.
                 matchCount (equipNeeds ?e) A \<ge> matchCount (equipNeeds ?e) B \<and>
                 (matchCount (equipNeeds ?e) A = matchCount (equipNeeds ?e) B \<longrightarrow>
                    last_used A \<le> last_used B \<and>
                    (last_used A = last_used B \<longrightarrow> utilOf rank_data A \<le> utilOf rank_data B))) part"
       "\<forall>d. area_id d \<notin> met_area_id ` set (metrics rank_data) \<longrightarrow> utilOf rank_data d = 1"
    by blast
  from T(1) h3 have o: "otherList = [rank_4, rank_3, rank_5]"
    by simp
  from T(2) have s: "sorted_wrt (\<lambda>A B.
                 matchCount (equipNeeds ?e) A \<ge> matchCount (equipNeeds ?e) B \<and>
                 (matchCount (equipNeeds ?e) A = matchCount (equipNeeds ?e) B \<longrightarrow>
                    last_used A \<le> last_used B \<and>
                    (last_used A = last_used B \<longrightarrow> utilOf rank_data A \<le> utilOf rank_data B)))
              (sorter rank_data ?e otherList)"
    by blast
  from T(3) h8 have u4: "utilOf rank_data rank_4 = 1"
    by blast
  note s' = s [unfolded o h4(2)]
  show ?thesis
    by (intro conjI h1 h2 h3 h4 h5 h6 h7 h8 u4 s')
qed

section \<open>Order of the filters\<close>

lemma cascade_in_order_iff: "cascade_in_order ps d \<longleftrightarrow> (\<forall>p\<in>set ps. p d)"
  by (induction ps) auto

lemma passesFilters_cascade: "passesFilters D now e d = cascade_in_order (predicates D now e) d"
  by (simp add: passesFilters_def predicates_def)

text \<open>
  Claim C5. The nine checks can be evaluated in any order: for every arrangement of the
  list of checks, rejecting each desk at the first check that fails leaves the same desks
  as the filter of \<open>matchDesks\<close>.
\<close>

theorem cascade_order_independent:
  assumes "mset ps = mset (predicates D now e)"
  shows "filter (cascade_in_order ps) (desks D) = candidates D now e"
proof -
  from assms have "set ps = set (predicates D now e)"
    by (rule mset_eq_setD)
  then have "cascade_in_order ps = passesFilters D now e"
    by (intro ext) (simp add: passesFilters_cascade cascade_in_order_iff)
  then show ?thesis
    by (simp add: candidates_def)
qed

theorem cascade_order_independent_witness:
  "mset (rev (predicates demo_data demo_now (effectivePrefs None DEFAULT_PARSED))) =
     mset (predicates demo_data demo_now (effectivePrefs None DEFAULT_PARSED)) \<and>
   filter (cascade_in_order (rev (predicates demo_data demo_now (effectivePrefs None DEFAULT_PARSED))))
     (desks demo_data) = candidates demo_data demo_now (effectivePrefs None DEFAULT_PARSED) \<and>
   candidates demo_data demo_now (effectivePrefs None DEFAULT_PARSED) = [desk_301, desk_305]"
proof -
  have h: "mset (rev (predicates demo_data demo_now (effectivePrefs None DEFAULT_PARSED))) =
     mset (predicates demo_data demo_now (effectivePrefs None DEFAULT_PARSED))"
    by simp
  have c: "candidates demo_data demo_now (effectivePrefs None DEFAULT_PARSED) = [desk_301, desk_305]"
    by code_simp
  from cascade_order_independent [OF h] h c show ?thesis by simp
qed

section \<open>Desk-type resolution\<close>

lemma find_first_match:
  "P x \<Longrightarrow> \<forall>y\<in>set pre. \<not> P y \<Longrightarrow> find P (pre @ x # post) = Some x"
  by (induction pre) auto

lemma resolveDeskType_None:
  "JStr ''standing'' \<notin> set prefs \<Longrightarrow> JStr ''regular'' \<notin> set prefs \<Longrightarrow> resolveDeskType prefs = None"
proof -
  assume "JStr ''standing'' \<notin> set prefs" "JStr ''regular'' \<notin> set prefs"
  then have "find (\<lambda>d. d \<in> set [JStr ''standing'', JStr ''regular'']) prefs = None"
    by (auto simp: find_None_iff)
  then show ?thesis by (simp add: resolveDeskType_def)
qed

lemma resolveDeskType_first:
  assumes "prefs = pre @ JStr t # post" and "t = ''standing'' \<or> t = ''regular''"
    and "JStr ''standing'' \<notin> set pre" and "JStr ''regular'' \<notin> set pre"
  shows "resolveDeskType prefs = Some t"
proof -
  have "find (\<lambda>d. d \<in> set [JStr ''standing'', JStr ''regular'']) (pre @ JStr t # post) = Some (JStr t)"
    using assms(2-4) by (intro find_first_match) auto
  with assms(1) show ?thesis by (simp add: resolveDeskType_def)
qed

lemma resolveDeskType_only:
  assumes "JStr t \<in> set prefs" and "t = ''standing'' \<or> t = ''regular''"
    and "\<forall>u. (u = ''standing'' \<or> u = ''regular'') \<and> u \<noteq> t \<longrightarrow> JStr u \<notin> set prefs"
  shows "resolveDeskType prefs = Some t"
proof -
  from assms(1) obtain pre post where sp: "prefs = pre @ JStr t # post" and nt: "JStr t \<notin> set pre"
    by (meson split_list_first)
  have "JStr ''standing'' \<notin> set pre" "JStr ''regular'' \<notin> set pre"
    using assms(2,3) nt sp by auto
  with sp assms(2) show ?thesis by (rule resolveDeskType_first)
qed

lemma finalDeskType_effectivePrefs:
  "finalDeskType (effectivePrefs ep parsed) = resolveDeskType (deskPreferences (effectivePrefs ep parsed))"
  by (simp add: effectivePrefs_def Let_def)

text \<open>
  Claim C2, as the code has it. The enforced desk type is the first token of the merged
  desk-preference list that is \<^verbatim>\<open>standing\<close> or \<^verbatim>\<open>regular\<close>: it is
  \<^verbatim>\<open>standing\<close> when only \<^verbatim>\<open>standing\<close> occurs, \<^verbatim>\<open>regular\<close> when only
  \<^verbatim>\<open>regular\<close> occurs, and the earlier of the two when both occur. With neither
  token no type is enforced and the desk-type check passes every desk; with an enforced
  type the check passes exactly the desks of that type.
\<close>

theorem desk_type_first_listed_token:
  assumes "e = effectivePrefs ep parsed"
  shows "(JStr ''standing'' \<in> set (deskPreferences e) \<and> JStr ''regular'' \<notin> set (deskPreferences e)
            \<longrightarrow> finalDeskType e = Some ''standing'') \<and>
         (JStr ''regular'' \<in> set (deskPreferences e) \<and> JStr ''standing'' \<notin> set (deskPreferences e)
            \<longrightarrow> finalDeskType e = Some ''regular'') \<and>
         (\<forall>pre t post.
            deskPreferences e = pre @ JStr t # post \<and> (t = ''standing'' \<or> t = ''regular'') \<and>
            JStr ''standing'' \<notin> set pre \<and> JStr ''regular'' \<notin> set pre
            \<longrightarrow> finalDeskType e = Some t) \<and>
         (JStr ''standing'' \<notin> set (deskPreferences e) \<and> JStr ''regular'' \<notin> set (deskPreferences e)
            \<longrightarrow> finalDeskType e = None \<and> (\<forall>d. deskTypeOk e d)) \<and>
         (\<forall>t d. finalDeskType e = Some t \<longrightarrow> (deskTypeOk e d \<longleftrightarrow> desk_type d = t))"
proof -
  have fd: "finalDeskType e = resolveDeskType (deskPreferences e)"
    unfolding assms by (rule finalDeskType_effectivePrefs)
  have 1: "finalDeskType e = Some ''standing''"
    if "JStr ''standing'' \<in> set (deskPreferences e)" "JStr ''regular'' \<notin> set (deskPreferences e)"
    unfolding fd using that by (intro resolveDeskType_only) auto
  have 2: "finalDeskType e = Some ''regular''"
    if "JStr ''regular'' \<in> set (deskPreferences e)" "JStr ''standing'' \<notin> set (deskPreferences e)"
    unfolding fd using that by (intro resolveDeskType_only) auto
  have 3: "finalDeskType e = Some t"
    if "deskPreferences e = pre @ JStr t # post" "t = ''standing'' \<or> t = ''regular''"
       "JStr ''standing'' \<notin> set pre" "JStr ''regular'' \<notin> set pre" for pre t post
    unfolding fd using that by (rule resolveDeskType_first)
  have 4: "finalDeskType e = None \<and> (\<forall>d. deskTypeOk e d)"
    if "JStr ''standing'' \<notin> set (deskPreferences e)" "JStr ''regular'' \<notin> set (deskPreferences e)"
    using resolveDeskType_None [OF that] by (simp add: fd deskTypeOk_def)
  have 5: "deskTypeOk e d \<longleftrightarrow> desk_type d = t" if "finalDeskType e = Some t" for t d
    using that by (simp add: deskTypeOk_def)
  from 1 2 3 4 5 show ?thesis by blast
qed

theorem desk_type_first_listed_token_witness:
  "finalDeskType (demo_prefs [JStr ''near-window'', JStr ''regular'', JStr ''standing'']) = Some ''regular'' \<and>
   deskTypeOk (demo_prefs [JStr ''near-window'', JStr ''regular'', JStr ''standing'']) desk_301 \<and>
   \<not> deskTypeOk (demo_prefs [JStr ''near-window'', JStr ''regular'', JStr ''standing'']) desk_304 \<and>
   finalDeskType (demo_prefs [JStr ''near-window'', JStr ''standing'']) = Some ''standing'' \<and>
   finalDeskType (demo_prefs [JStr ''regular'', JStr ''near-window'']) = Some ''regular'' \<and>
   finalDeskType (demo_prefs [JStr ''near-window'']) = None \<and>
   deskTypeOk (demo_prefs [JStr ''near-window'']) desk_304"
proof -
  let ?both = "[JStr ''near-window'', JStr ''regular'', JStr ''standing'']"
  let ?st = "[JStr ''near-window'', JStr ''standing'']"
  let ?rg = "[JStr ''regular'', JStr ''near-window'']"
  let ?no = "[JStr ''near-window'']"
  have dp: "deskPreferences (demo_prefs xs) = xs" if "xs \<noteq> []" for xs
    using that by (simp add: demo_prefs_def effectivePrefs_def DEFAULT_PARSED_def Let_def)
  note T = desk_type_first_listed_token [OF demo_prefs_def]
  have h: "deskPreferences (demo_prefs ?both) = [JStr ''near-window''] @ JStr ''regular'' # [JStr ''standing'']"
    by (simp add: dp)
  have t1: "desk_type desk_301 = ''regular''" and t4: "desk_type desk_304 \<noteq> ''regular''"
    by (simp_all add: desk_301_def desk_304_def)
  have f: "finalDeskType (demo_prefs ?both) = Some ''regular''"
    using T [of ?both, THEN conjunct2, THEN conjunct2, THEN conjunct1, rule_format,
        of "[JStr ''near-window'']" "''regular''" "[JStr ''standing'']"] h
    by simp
  note ok = T [of ?both, THEN conjunct2, THEN conjunct2, THEN conjunct2, THEN conjunct2,
      rule_format, OF f]
  have s: "finalDeskType (demo_prefs ?st) = Some ''standing''"
    using T [of ?st, THEN conjunct1] by (simp add: dp)
  have r: "finalDeskType (demo_prefs ?rg) = Some ''regular''"
    using T [of ?rg, THEN conjunct2, THEN conjunct1] by (simp add: dp)
  have n: "finalDeskType (demo_prefs ?no) = None \<and> (\<forall>d. deskTypeOk (demo_prefs ?no) d)"
    using T [of ?no, THEN conjunct2, THEN conjunct2, THEN conjunct2, THEN conjunct1]
    by (simp add: dp)
  from f t1 t4 ok [of desk_301] ok [of desk_304] s r n show ?thesis by simp
qed

text \<open>
  The list \<^verbatim>\<open>["regular", "standing"]\<close> contains \<^verbatim>\<open>standing\<close>, and the enforced
  type is \<^verbatim>\<open>regular\<close>: the standing desk D-304 is not returned.
\<close>

theorem standing_priority_counterexample:
  "JStr ''standing'' \<in> set (deskPreferences (demo_prefs [JStr ''regular'', JStr ''standing''])) \<and>
   finalDeskType (demo_prefs [JStr ''regular'', JStr ''standing'']) = Some ''regular'' \<and>
   finalDeskType (demo_prefs [JStr ''regular'', JStr ''standing'']) \<noteq> Some ''standing'' \<and>
   matchDesks demo_data demo_now None
      (Reply (JObj [(''desk_preferences'', JArr [JStr ''regular'', JStr ''standing''])]))
     = Inr [desk_301, desk_305]"
  by code_simp

section \<open>Requests without preferences\<close>

lemma employeePrefs_absent: "employeePrefs D None = None"
  by (simp add: employeePrefs_def find_None_iff)

text \<open>
  Claim C4, as the code has it. For a request without employee whose parsed query has no
  desk preferences, no equipment needs and no adjacency preferences, \<open>matchDesks\<close>
  returns a list: the available desks that are not standing desks and that pass the
  location, capacity, sanitization, accessibility and sensor checks, each as often as the
  data lists it, ordered by \<^verbatim>\<open>last_used\<close> and then by utilization.
\<close>

theorem empty_request_degrades:
  assumes "parseQuery reply = Inr parsed"
    and "desk_preferences parsed = []"
    and "equipment_needs parsed = []"
    and "adjacency_preferences parsed = []"
    and "e = effectivePrefs (employeePrefs D None) parsed"
  shows "\<exists>res. matchDesks D now None reply = Inr res \<and>
           mset res = mset (filter (\<lambda>d. status d = ''available'' \<and> desk_type d \<noteq> ''standing'' \<and>
                                      locationOk D e d \<and> capacityOk D d \<and> sanitizationOk D now d \<and>
                                      accessibilityOk e d \<and> sensorOk D now d) (desks D)) \<and>
           sorted_wrt (\<lambda>A B. last_used A \<le> last_used B \<and>
                             (last_used A = last_used B \<longrightarrow> utilOf D A \<le> utilOf D B)) res"
proof -
  have dp: "deskPreferences e = []" and en: "equipNeeds e = []" and ap: "adjPrefs e = []"
    and ft: "finalDeskType e = None"
    using assms(2-5)
    by (simp_all add: effectivePrefs_def employeePrefs_absent stored_list_def Let_def resolveDeskType_def)
  have pf: "passesFilters D now e d \<longleftrightarrow>
          (status d = ''available'' \<and> desk_type d \<noteq> ''standing'' \<and>
           locationOk D e d \<and> capacityOk D d \<and> sanitizationOk D now d \<and>
           accessibilityOk e d \<and> sensorOk D now d)" for d
    by (simp add: passesFilters_iff availabilityOk_def deskTypeOk_def standingOk_def equipmentOk_def
        dp en ft)
  have md: "matchDesks D now None reply = Inr (sorter D e (candidates D now e))"
    using assms(1,5) ap
    by (simp add: matchDesks_def rankCandidates_def partition_adj_Nil sorter_def)
  have ms: "mset (sorter D e (candidates D now e)) =
      mset (filter (\<lambda>d. status d = ''available'' \<and> desk_type d \<noteq> ''standing'' \<and>
                                      locationOk D e d \<and> capacityOk D d \<and> sanitizationOk D now d \<and>
                                      accessibilityOk e d \<and> sensorOk D now d) (desks D))"
    by (simp add: mset_sorter candidates_def pf)
  have "sorted_wrt (\<lambda>A B. last_used A \<le> last_used B \<and>
                             (last_used A = last_used B \<longrightarrow> utilOf D A \<le> utilOf D B))
          (sorter D e (candidates D now e))"
  proof (rule sorted_wrt_mono_rel [OF _ sorter_sorted])
    fix x y
    assume "compareDesks D e x y \<le> 0"
    then show "last_used x \<le> last_used y \<and> (last_used x = last_used y \<longrightarrow> utilOf D x \<le> utilOf D y)"
      unfolding compareDesks_le_iff en by (simp add: matchCount_def) linarith
  qed
  with md ms show ?thesis by blast
qed

theorem empty_request_degrades_witness:
  "parseQuery TryThrew = Inr DEFAULT_PARSED \<and>
   matchDesks demo_data demo_now None TryThrew = Inr [desk_301, desk_305] \<and>
   (\<exists>res. matchDesks demo_data demo_now None TryThrew = Inr res \<and>
      mset res = mset (filter (\<lambda>d. status d = ''available'' \<and> desk_type d \<noteq> ''standing'' \<and>
            locationOk demo_data (effectivePrefs (employeePrefs demo_data None) DEFAULT_PARSED) d \<and>
            capacityOk demo_data d \<and> sanitizationOk demo_data demo_now d \<and>
            accessibilityOk (effectivePrefs (employeePrefs demo_data None) DEFAULT_PARSED) d \<and>
            sensorOk demo_data demo_now d) (desks demo_data)) \<and>
      sorted_wrt (\<lambda>A B. last_used A \<le> last_used B \<and>
            (last_used A = last_used B \<longrightarrow> utilOf demo_data A \<le> utilOf demo_data B)) res)"
proof -
  have h1: "parseQuery TryThrew = Inr DEFAULT_PARSED"
    by code_simp
  have h2: "desk_preferences DEFAULT_PARSED = []" "equipment_needs DEFAULT_PARSED = []"
    "adjacency_preferences DEFAULT_PARSED = []"
    by (simp_all add: DEFAULT_PARSED_def)
  have h3: "matchDesks demo_data demo_now None TryThrew = Inr [desk_301, desk_305]"
    by code_simp
  from empty_request_degrades [OF h1 h2 refl, of demo_data demo_now] h1 h3
  show ?thesis by blast
qed

text \<open>
  On the sample data such a request returns D-301 and D-305. The desks D-304 (a standing
  desk), D-306 (used one hour ago, policy \<^verbatim>\<open>POL-002\<close>) and D-307 (occupancy 85,
  policy \<^verbatim>\<open>POL-005\<close>) are available and are not returned.
\<close>

theorem all_available_counterexample:
  "parseQuery TryThrew = Inr DEFAULT_PARSED \<and>
   matchDesks demo_data demo_now None TryThrew = Inr [desk_301, desk_305] \<and>
   desk_304 \<in> set (desks demo_data) \<and> status desk_304 = ''available'' \<and>
   desk_306 \<in> set (desks demo_data) \<and> status desk_306 = ''available'' \<and>
   desk_307 \<in> set (desks demo_data) \<and> status desk_307 = ''available'' \<and>
   desk_304 \<notin> set [desk_301, desk_305] \<and>
   desk_306 \<notin> set [desk_301, desk_305] \<and>
   desk_307 \<notin> set [desk_301, desk_305]"
  by code_simp

section \<open>Failure of the query parser's collaborator\<close>

lemma stored_list_strings: "\<exists>xs. stored_list ep fld = map JStr xs"
  by (cases ep) (auto simp: stored_list_def split: option.splits)

lemma build_parsed_empty: "build_parsed (JObj []) = Inr DEFAULT_PARSED"
  by (simp add: build_parsed_def string_or_def array_or_def null_or_string_def DEFAULT_PARSED_def)

lemma array_or_other: "(\<forall>xs. v \<noteq> Some (JArr xs)) \<Longrightarrow> array_or v d = d"
  by (auto simp: array_or_def split: option.splits jsval.splits)

lemma array_or_array: "array_or (Some (JArr xs)) d = xs"
  by (simp add: array_or_def)

lemma string_or_other: "(\<forall>s. v \<noteq> Some (JStr s)) \<Longrightarrow> string_or v d = d"
  by (auto simp: string_or_def split: option.splits jsval.splits)

lemma string_or_string: "string_or (Some (JStr s)) d = s"
  by (simp add: string_or_def)

lemma null_or_string_other: "(\<forall>s. v \<noteq> Some (JStr s)) \<Longrightarrow> null_or_string v None = None"
  by (auto simp: null_or_string_def split: option.splits jsval.splits)

lemma null_or_string_string: "null_or_string (Some (JStr s)) d = Some s"
  by (simp add: null_or_string_def)

lemma parseQuery_object:
  "parseQuery (Reply (JObj kvs)) =
     Inr \<lparr> team = string_or (map_of kvs ''team'') '''',
           desk_preferences = array_or (map_of kvs ''desk_preferences'') [],
           equipment_needs = array_or (map_of kvs ''equipment_needs'') [],
           preferred_days = array_or (map_of kvs ''preferred_days'') [],
           preferred_location = string_or (map_of kvs ''preferred_location'') '''',
           accessibility_needs = null_or_string (map_of kvs ''accessibility_needs'') None,
           adjacency_preferences = array_or (map_of kvs ''adjacency_preferences'') [] \<rparr>"
  by (simp add: parseQuery_def build_parsed_def DEFAULT_PARSED_def)

lemma effectivePrefs_default:
  "effectivePrefs ep DEFAULT_PARSED =
     \<lparr> deskPreferences = stored_list ep emp_desk_preferences,
       finalDeskType = resolveDeskType (stored_list ep emp_desk_preferences),
       equipNeeds = stored_list ep emp_equipment_needs,
       adjPrefs = stored_list ep emp_adjacency_preferences,
       preferredLocation = stored_string ep emp_preferred_location,
       accessibilityNeed = stored_string ep emp_accessibility_needs \<rparr>"
  by (simp add: effectivePrefs_def DEFAULT_PARSED_def Let_def)

lemma rankCandidates_strings:
  assumes "adjPrefs e = map JStr xs"
  shows "\<exists>res. rankCandidates D now e = Inr res"
proof -
  obtain a b where "partition_adj (map JStr xs) (candidates D now e) = Inr (a, b)"
    using partition_adj_strings by blast
  with assms show ?thesis by (simp add: rankCandidates_def)
qed

lemma all_strings_map: "(\<forall>v\<in>set ps. \<exists>s. v = JStr s) \<Longrightarrow> \<exists>xs. ps = map JStr xs"
proof (induction ps)
  case Nil
  then show ?case by simp
next
  case (Cons v ps)
  then obtain s xs where "v = JStr s" "ps = map JStr xs"
    by auto
  then have "v # ps = map JStr (s # xs)"
    by simp
  then show ?case by (rule exI)
qed

lemma adjPrefs_strings:
  assumes "\<forall>v\<in>set (adjacency_preferences p). \<exists>s. v = JStr s"
  shows "\<exists>xs. adjPrefs (effectivePrefs ep p) = map JStr xs"
proof (cases "adjacency_preferences p = []")
  case True
  then have "adjPrefs (effectivePrefs ep p) = stored_list ep emp_adjacency_preferences"
    by (simp add: effectivePrefs_def Let_def)
  then show ?thesis
    using stored_list_strings [of ep emp_adjacency_preferences] by simp
next
  case False
  then have "adjPrefs (effectivePrefs ep p) = adjacency_preferences p"
    by (simp add: effectivePrefs_def Let_def)
  then show ?thesis
    using all_strings_map [OF assms] by simp
qed

lemma matchDesks_returns:
  assumes "parseQuery reply = Inr p"
    and "\<forall>v\<in>set (adjacency_preferences p). \<exists>s. v = JStr s"
  shows "\<exists>res. matchDesks D now employeeId reply = Inr res"
proof -
  obtain xs where "adjPrefs (effectivePrefs (employeePrefs D employeeId) p) = map JStr xs"
    using adjPrefs_strings [OF assms(2)] by blast
  then obtain res where "rankCandidates D now (effectivePrefs (employeePrefs D employeeId) p) = Inr res"
    using rankCandidates_strings by blast
  with assms(1) show ?thesis
    by (simp add: matchDesks_def)
qed

lemma effectivePrefs_fallback:
  "(desk_preferences p = [] \<longrightarrow>
      deskPreferences (effectivePrefs ep p) = stored_list ep emp_desk_preferences) \<and>
   (equipment_needs p = [] \<longrightarrow>
      equipNeeds (effectivePrefs ep p) = stored_list ep emp_equipment_needs) \<and>
   (adjacency_preferences p = [] \<longrightarrow>
      adjPrefs (effectivePrefs ep p) = stored_list ep emp_adjacency_preferences) \<and>
   (preferred_location p = '''' \<longrightarrow>
      preferredLocation (effectivePrefs ep p) = stored_string ep emp_preferred_location) \<and>
   (accessibility_needs p = None \<longrightarrow>
      accessibilityNeed (effectivePrefs ep p) = stored_string ep emp_accessibility_needs)"
  by (simp add: effectivePrefs_def Let_def)

lemma stored_absent:
  "stored_list None fld = [] \<and> stored_string None sfld = ''''"
  by (simp add: stored_list_def stored_string_def)

lemma parseQuery_object_fields:
  "\<exists>p. parseQuery (Reply (JObj kvs)) = Inr p \<and>
      ((\<forall>s. map_of kvs ''team'' \<noteq> Some (JStr s)) \<longrightarrow> team p = '''') \<and>
      ((\<forall>xs. map_of kvs ''desk_preferences'' \<noteq> Some (JArr xs)) \<longrightarrow> desk_preferences p = []) \<and>
      ((\<forall>xs. map_of kvs ''equipment_needs'' \<noteq> Some (JArr xs)) \<longrightarrow> equipment_needs p = []) \<and>
      ((\<forall>xs. map_of kvs ''preferred_days'' \<noteq> Some (JArr xs)) \<longrightarrow> preferred_days p = []) \<and>
      ((\<forall>xs. map_of kvs ''adjacency_preferences'' \<noteq> Some (JArr xs)) \<longrightarrow> adjacency_preferences p = []) \<and>
      ((\<forall>s. map_of kvs ''preferred_location'' \<noteq> Some (JStr s)) \<longrightarrow> preferred_location p = '''') \<and>
      ((\<forall>s. map_of kvs ''accessibility_needs'' \<noteq> Some (JStr s)) \<longrightarrow> accessibility_needs p = None) \<and>
      (\<forall>s. map_of kvs ''team'' = Some (JStr s) \<longrightarrow> team p = s) \<and>
      (\<forall>xs. map_of kvs ''desk_preferences'' = Some (JArr xs) \<longrightarrow> desk_preferences p = xs) \<and>
      (\<forall>xs. map_of kvs ''equipment_needs'' = Some (JArr xs) \<longrightarrow> equipment_needs p = xs) \<and>
      (\<forall>xs. map_of kvs ''preferred_days'' = Some (JArr xs) \<longrightarrow> preferred_days p = xs) \<and>
      (\<forall>xs. map_of kvs ''adjacency_preferences'' = Some (JArr xs) \<longrightarrow> adjacency_preferences p = xs) \<and>
      (\<forall>s. map_of kvs ''preferred_location'' = Some (JStr s) \<longrightarrow> preferred_location p = s) \<and>
      (\<forall>s. map_of kvs ''accessibility_needs'' = Some (JStr s) \<longrightarrow> accessibility_needs p = Some s)"
  unfolding parseQuery_object
  by (simp add: array_or_other array_or_array string_or_other string_or_string
      null_or_string_other null_or_string_string)

lemma parseQuery_non_object:
  "raw \<noteq> JNull \<and> (\<forall>kvs. raw \<noteq> JObj kvs) \<longrightarrow> parseQuery (Reply raw) = Inr DEFAULT_PARSED"
  by (cases raw)
    (simp_all add: parseQuery_def build_parsed_def string_or_def array_or_def
      null_or_string_def DEFAULT_PARSED_def)

lemma default_falls_back:
  assumes "parseQuery reply = Inr DEFAULT_PARSED"
  shows "deskPreferences (effectivePrefs (employeePrefs D employeeId) DEFAULT_PARSED)
        = stored_list (employeePrefs D employeeId) emp_desk_preferences \<and>
      equipNeeds (effectivePrefs (employeePrefs D employeeId) DEFAULT_PARSED)
        = stored_list (employeePrefs D employeeId) emp_equipment_needs \<and>
      adjPrefs (effectivePrefs (employeePrefs D employeeId) DEFAULT_PARSED)
        = stored_list (employeePrefs D employeeId) emp_adjacency_preferences \<and>
      preferredLocation (effectivePrefs (employeePrefs D employeeId) DEFAULT_PARSED)
        = stored_string (employeePrefs D employeeId) emp_preferred_location \<and>
      accessibilityNeed (effectivePrefs (employeePrefs D employeeId) DEFAULT_PARSED)
        = stored_string (employeePrefs D employeeId) emp_accessibility_needs \<and>
      (employeePrefs D employeeId = None \<longrightarrow>
         effectivePrefs (employeePrefs D employeeId) DEFAULT_PARSED =
           \<lparr> deskPreferences = [], finalDeskType = None, equipNeeds = [], adjPrefs = [],
             preferredLocation = '''', accessibilityNeed = '''' \<rparr>) \<and>
      (\<exists>res. matchDesks D now employeeId reply = Inr res \<and>
         rankCandidates D now (effectivePrefs (employeePrefs D employeeId) DEFAULT_PARSED) = Inr res)"
proof -
  let ?ep = "employeePrefs D employeeId"
  let ?e = "effectivePrefs ?ep DEFAULT_PARSED"
  obtain xs where "adjPrefs ?e = map JStr xs"
    using stored_list_strings [of ?ep emp_adjacency_preferences]
    by (auto simp: effectivePrefs_default)
  then obtain res where res: "rankCandidates D now ?e = Inr res"
    using rankCandidates_strings by blast
  with assms have md: "matchDesks D now employeeId reply = Inr res"
    by (simp add: matchDesks_def)
  have none: "?e = \<lparr> deskPreferences = [], finalDeskType = None, equipNeeds = [], adjPrefs = [],
           preferredLocation = '''', accessibilityNeed = '''' \<rparr>" if "?ep = None"
    using that by (simp add: effectivePrefs_default stored_list_def stored_string_def resolveDeskType_def)
  have f1: "deskPreferences ?e = stored_list ?ep emp_desk_preferences"
    and f2: "equipNeeds ?e = stored_list ?ep emp_equipment_needs"
    and f3: "adjPrefs ?e = stored_list ?ep emp_adjacency_preferences"
    and f4: "preferredLocation ?e = stored_string ?ep emp_preferred_location"
    and f5: "accessibilityNeed ?e = stored_string ?ep emp_accessibility_needs"
    by (simp_all add: effectivePrefs_default)
  from md res have f7: "\<exists>res. matchDesks D now employeeId reply = Inr res \<and> rankCandidates D now ?e = Inr res"
    by blast
  from none have f6: "?ep = None \<longrightarrow> ?e = \<lparr> deskPreferences = [], finalDeskType = None, equipNeeds = [], adjPrefs = [],
           preferredLocation = '''', accessibilityNeed = '''' \<rparr>"
    by blast
  from f1 f2 f3 f4 f5 f6 f7 show ?thesis
    by (intro conjI)
qed

text \<open>
  Claim C9, as the code has it. When the call throws or the reply is not JSON,
  \<open>parseQuery\<close> returns the all-empty default. A reply that is a JSON object has each
  of the seven fields that is missing or of another type replaced by that field's own
  default, and each field of the expected type kept. A reply that is JSON but neither an
  object nor \<^verbatim>\<open>null\<close> gives the all-empty default. For every result of
  \<open>parseQuery\<close>, each preference field that it left empty is taken from the stored
  preferences (empty without a stored record), so all of them are when the result is the
  all-empty default; and \<open>matchDesks\<close> returns a list whenever the adjacency tokens of
  the result are strings, as they are in the all-empty default.
\<close>

theorem nlp_failure_falls_back:
  "parseQuery TryThrew = Inr DEFAULT_PARSED \<and>
   (\<forall>kvs. \<exists>p. parseQuery (Reply (JObj kvs)) = Inr p \<and>
      ((\<forall>s. map_of kvs ''team'' \<noteq> Some (JStr s)) \<longrightarrow> team p = '''') \<and>
      ((\<forall>xs. map_of kvs ''desk_preferences'' \<noteq> Some (JArr xs)) \<longrightarrow> desk_preferences p = []) \<and>
      ((\<forall>xs. map_of kvs ''equipment_needs'' \<noteq> Some (JArr xs)) \<longrightarrow> equipment_needs p = []) \<and>
      ((\<forall>xs. map_of kvs ''preferred_days'' \<noteq> Some (JArr xs)) \<longrightarrow> preferred_days p = []) \<and>
      ((\<forall>xs. map_of kvs ''adjacency_preferences'' \<noteq> Some (JArr xs)) \<longrightarrow> adjacency_preferences p = []) \<and>
      ((\<forall>s. map_of kvs ''preferred_location'' \<noteq> Some (JStr s)) \<longrightarrow> preferred_location p = '''') \<and>
      ((\<forall>s. map_of kvs ''accessibility_needs'' \<noteq> Some (JStr s)) \<longrightarrow> accessibility_needs p = None) \<and>
      (\<forall>s. map_of kvs ''team'' = Some (JStr s) \<longrightarrow> team p = s) \<and>
      (\<forall>xs. map_of kvs ''desk_preferences'' = Some (JArr xs) \<longrightarrow> desk_preferences p = xs) \<and>
      (\<forall>xs. map_of kvs ''equipment_needs'' = Some (JArr xs) \<longrightarrow> equipment_needs p = xs) \<and>
      (\<forall>xs. map_of kvs ''preferred_days'' = Some (JArr xs) \<longrightarrow> preferred_days p = xs) \<and>
      (\<forall>xs. map_of kvs ''adjacency_preferences'' = Some (JArr xs) \<longrightarrow> adjacency_preferences p = xs) \<and>
      (\<forall>s. map_of kvs ''preferred_location'' = Some (JStr s) \<longrightarrow> preferred_location p = s) \<and>
      (\<forall>s. map_of kvs ''accessibility_needs'' = Some (JStr s) \<longrightarrow> accessibility_needs p = Some s)) \<and>
   (\<forall>raw. raw \<noteq> JNull \<and> (\<forall>kvs. raw \<noteq> JObj kvs) \<longrightarrow> parseQuery (Reply raw) = Inr DEFAULT_PARSED) \<and>
   (\<forall>p. parseQuery reply = Inr p \<longrightarrow>
      (desk_preferences p = [] \<longrightarrow>
         deskPreferences (effectivePrefs (employeePrefs D employeeId) p)
           = stored_list (employeePrefs D employeeId) emp_desk_preferences) \<and>
      (equipment_needs p = [] \<longrightarrow>
         equipNeeds (effectivePrefs (employeePrefs D employeeId) p)
           = stored_list (employeePrefs D employeeId) emp_equipment_needs) \<and>
      (adjacency_preferences p = [] \<longrightarrow>
         adjPrefs (effectivePrefs (employeePrefs D employeeId) p)
           = stored_list (employeePrefs D employeeId) emp_adjacency_preferences) \<and>
      (preferred_location p = '''' \<longrightarrow>
         preferredLocation (effectivePrefs (employeePrefs D employeeId) p)
           = stored_string (employeePrefs D employeeId) emp_preferred_location) \<and>
      (accessibility_needs p = None \<longrightarrow>
         accessibilityNeed (effectivePrefs (employeePrefs D employeeId) p)
           = stored_string (employeePrefs D employeeId) emp_accessibility_needs) \<and>
      (employeePrefs D employeeId = None \<longrightarrow>
         (\<forall>fld. stored_list (employeePrefs D employeeId) fld = []) \<and>
         (\<forall>fld. stored_string (employeePrefs D employeeId) fld = '''')) \<and>
      ((\<forall>v\<in>set (adjacency_preferences p). \<exists>s. v = JStr s) \<longrightarrow>
         (\<exists>res. matchDesks D now employeeId reply = Inr res))) \<and>
   (parseQuery reply = Inr DEFAULT_PARSED \<longrightarrow>
      deskPreferences (effectivePrefs (employeePrefs D employeeId) DEFAULT_PARSED)
        = stored_list (employeePrefs D employeeId) emp_desk_preferences \<and>
      equipNeeds (effectivePrefs (employeePrefs D employeeId) DEFAULT_PARSED)
        = stored_list (employeePrefs D employeeId) emp_equipment_needs \<and>
      adjPrefs (effectivePrefs (employeePrefs D employeeId) DEFAULT_PARSED)
        = stored_list (employeePrefs D employeeId) emp_adjacency_preferences \<and>
      preferredLocation (effectivePrefs (employeePrefs D employeeId) DEFAULT_PARSED)
        = stored_string (employeePrefs D employeeId) emp_preferred_location \<and>
      accessibilityNeed (effectivePrefs (employeePrefs D employeeId) DEFAULT_PARSED)
        = stored_string (employeePrefs D employeeId) emp_accessibility_needs \<and>
      (employeePrefs D employeeId = None \<longrightarrow>
         effectivePrefs (employeePrefs D employeeId) DEFAULT_PARSED =
           \<lparr> deskPreferences = [], finalDeskType = None, equipNeeds = [], adjPrefs = [],
             preferredLocation = '''', accessibilityNeed = '''' \<rparr>) \<and>
      (\<exists>res. matchDesks D now employeeId reply = Inr res \<and>
         rankCandidates D now (effectivePrefs (employeePrefs D employeeId) DEFAULT_PARSED) = Inr res))"
proof (intro conjI)
  show "parseQuery TryThrew = Inr DEFAULT_PARSED"
    by (simp add: parseQuery_def build_parsed_empty)
next
  show "\<forall>kvs. \<exists>p. parseQuery (Reply (JObj kvs)) = Inr p \<and>
      ((\<forall>s. map_of kvs ''team'' \<noteq> Some (JStr s)) \<longrightarrow> team p = '''') \<and>
      ((\<forall>xs. map_of kvs ''desk_preferences'' \<noteq> Some (JArr xs)) \<longrightarrow> desk_preferences p = []) \<and>
      ((\<forall>xs. map_of kvs ''equipment_needs'' \<noteq> Some (JArr xs)) \<longrightarrow> equipment_needs p = []) \<and>
      ((\<forall>xs. map_of kvs ''preferred_days'' \<noteq> Some (JArr xs)) \<longrightarrow> preferred_days p = []) \<and>
      ((\<forall>xs. map_of kvs ''adjacency_preferences'' \<noteq> Some (JArr xs)) \<longrightarrow> adjacency_preferences p = []) \<and>
      ((\<forall>s. map_of kvs ''preferred_location'' \<noteq> Some (JStr s)) \<longrightarrow> preferred_location p = '''') \<and>
      ((\<forall>s. map_of kvs ''accessibility_needs'' \<noteq> Some (JStr s)) \<longrightarrow> accessibility_needs p = None) \<and>
      (\<forall>s. map_of kvs ''team'' = Some (JStr s) \<longrightarrow> team p = s) \<and>
      (\<forall>xs. map_of kvs ''desk_preferences'' = Some (JArr xs) \<longrightarrow> desk_preferences p = xs) \<and>
      (\<forall>xs. map_of kvs ''equipment_needs'' = Some (JArr xs) \<longrightarrow> equipment_needs p = xs) \<and>
      (\<forall>xs. map_of kvs ''preferred_days'' = Some (JArr xs) \<longrightarrow> preferred_days p = xs) \<and>
      (\<forall>xs. map_of kvs ''adjacency_preferences'' = Some (JArr xs) \<longrightarrow> adjacency_preferences p = xs) \<and>
      (\<forall>s. map_of kvs ''preferred_location'' = Some (JStr s) \<longrightarrow> preferred_location p = s) \<and>
      (\<forall>s. map_of kvs ''accessibility_needs'' = Some (JStr s) \<longrightarrow> accessibility_needs p = Some s)"
    by (intro allI) (rule parseQuery_object_fields)
next
  show "\<forall>raw. raw \<noteq> JNull \<and> (\<forall>kvs. raw \<noteq> JObj kvs) \<longrightarrow> parseQuery (Reply raw) = Inr DEFAULT_PARSED"
    by (intro allI) (rule parseQuery_non_object)
next
  show "\<forall>p. parseQuery reply = Inr p \<longrightarrow>
      (desk_preferences p = [] \<longrightarrow>
         deskPreferences (effectivePrefs (employeePrefs D employeeId) p)
           = stored_list (employeePrefs D employeeId) emp_desk_preferences) \<and>
      (equipment_needs p = [] \<longrightarrow>
         equipNeeds (effectivePrefs (employeePrefs D employeeId) p)
           = stored_list (employeePrefs D employeeId) emp_equipment_needs) \<and>
      (adjacency_preferences p = [] \<longrightarrow>
         adjPrefs (effectivePrefs (employeePrefs D employeeId) p)
           = stored_list (employeePrefs D employeeId) emp_adjacency_preferences) \<and>
      (preferred_location p = '''' \<longrightarrow>
         preferredLocation (effectivePrefs (employeePrefs D employeeId) p)
           = stored_string (employeePrefs D employeeId) emp_preferred_location) \<and>
      (accessibility_needs p = None \<longrightarrow>
         accessibilityNeed (effectivePrefs (employeePrefs D employeeId) p)
           = stored_string (employeePrefs D employeeId) emp_accessibility_needs) \<and>
      (employeePrefs D employeeId = None \<longrightarrow>
         (\<forall>fld. stored_list (employeePrefs D employeeId) fld = []) \<and>
         (\<forall>fld. stored_string (employeePrefs D employeeId) fld = '''')) \<and>
      ((\<forall>v\<in>set (adjacency_preferences p). \<exists>s. v = JStr s) \<longrightarrow>
         (\<exists>res. matchDesks D now employeeId reply = Inr res))"
  proof (intro allI impI)
    fix p
    assume pq: "parseQuery reply = Inr p"
    note fb = effectivePrefs_fallback [of p "employeePrefs D employeeId"]
    have ab: "employeePrefs D employeeId = None \<longrightarrow>
         (\<forall>fld. stored_list (employeePrefs D employeeId) fld = []) \<and>
         (\<forall>fld. stored_string (employeePrefs D employeeId) fld = '''')"
      using stored_absent by simp
    have rt: "(\<forall>v\<in>set (adjacency_preferences p). \<exists>s. v = JStr s) \<longrightarrow>
         (\<exists>res. matchDesks D now employeeId reply = Inr res)"
      using matchDesks_returns [OF pq] by blast
    show "(desk_preferences p = [] \<longrightarrow>
         deskPreferences (effectivePrefs (employeePrefs D employeeId) p)
           = stored_list (employeePrefs D employeeId) emp_desk_preferences) \<and>
      (equipment_needs p = [] \<longrightarrow>
         equipNeeds (effectivePrefs (employeePrefs D employeeId) p)
           = stored_list (employeePrefs D employeeId) emp_equipment_needs) \<and>
      (adjacency_preferences p = [] \<longrightarrow>
         adjPrefs (effectivePrefs (employeePrefs D employeeId) p)
           = stored_list (employeePrefs D employeeId) emp_adjacency_preferences) \<and>
      (preferred_location p = '''' \<longrightarrow>
         preferredLocation (effectivePrefs (employeePrefs D employeeId) p)
           = stored_string (employeePrefs D employeeId) emp_preferred_location) \<and>
      (accessibility_needs p = None \<longrightarrow>
         accessibilityNeed (effectivePrefs (employeePrefs D employeeId) p)
           = stored_string (employeePrefs D employeeId) emp_accessibility_needs) \<and>
      (employeePrefs D employeeId = None \<longrightarrow>
         (\<forall>fld. stored_list (employeePrefs D employeeId) fld = []) \<and>
         (\<forall>fld. stored_string (employeePrefs D employeeId) fld = '''')) \<and>
      ((\<forall>v\<in>set (adjacency_preferences p). \<exists>s. v = JStr s) \<longrightarrow>
         (\<exists>res. matchDesks D now employeeId reply = Inr res))"
      by (intro conjI)
        (rule fb [THEN conjunct1] fb [THEN conjunct2, THEN conjunct1]
          fb [THEN conjunct2, THEN conjunct2, THEN conjunct1]
          fb [THEN conjunct2, THEN conjunct2, THEN conjunct2, THEN conjunct1]
          fb [THEN conjunct2, THEN conjunct2, THEN conjunct2, THEN conjunct2] ab rt)+
  qed
next
  show "parseQuery reply = Inr DEFAULT_PARSED \<longrightarrow>
      deskPreferences (effectivePrefs (employeePrefs D employeeId) DEFAULT_PARSED)
        = stored_list (employeePrefs D employeeId) emp_desk_preferences \<and>
      equipNeeds (effectivePrefs (employeePrefs D employeeId) DEFAULT_PARSED)
        = stored_list (employeePrefs D employeeId) emp_equipment_needs \<and>
      adjPrefs (effectivePrefs (employeePrefs D employeeId) DEFAULT_PARSED)
        = stored_list (employeePrefs D employeeId) emp_adjacency_preferences \<and>
      preferredLocation (effectivePrefs (employeePrefs D employeeId) DEFAULT_PARSED)
        = stored_string (employeePrefs D employeeId) emp_preferred_location \<and>
      accessibilityNeed (effectivePrefs (employeePrefs D employeeId) DEFAULT_PARSED)
        = stored_string (employeePrefs D employeeId) emp_accessibility_needs \<and>
      (employeePrefs D employeeId = None \<longrightarrow>
         effectivePrefs (employeePrefs D employeeId) DEFAULT_PARSED =
           \<lparr> deskPreferences = [], finalDeskType = None, equipNeeds = [], adjPrefs = [],
             preferredLocation = '''', accessibilityNeed = '''' \<rparr>) \<and>
      (\<exists>res. matchDesks D now employeeId reply = Inr res \<and>
         rankCandidates D now (effectivePrefs (employeePrefs D employeeId) DEFAULT_PARSED) = Inr res)"
    by (intro impI) (rule default_falls_back)
qed

theorem nlp_failure_falls_back_witness:
  "parseQuery TryThrew = Inr DEFAULT_PARSED \<and>
   matchDesks demo_data demo_now (Some ''E-2'') TryThrew = Inr [desk_305, desk_301] \<and>
   equipNeeds (effectivePrefs (employeePrefs demo_data (Some ''E-2'')) DEFAULT_PARSED)
     = [JStr ''dual-monitors''] \<and>
   adjPrefs (effectivePrefs (employeePrefs demo_data (Some ''E-2'')) DEFAULT_PARSED)
     = [JStr ''marketing''] \<and>
   employeePrefs demo_data (Some ''E-9'') = None \<and>
   effectivePrefs (employeePrefs demo_data (Some ''E-9'')) DEFAULT_PARSED =
     \<lparr> deskPreferences = [], finalDeskType = None, equipNeeds = [], adjPrefs = [],
       preferredLocation = '''', accessibilityNeed = '''' \<rparr> \<and>
   parseQuery (Reply (JStr ''Sorry, I cannot help with that.'')) = Inr DEFAULT_PARSED \<and>
   (\<exists>p. parseQuery (Reply (JObj [(''desk_preferences'', JNum 5), (''team'', JBool True),
                                  (''equipment_needs'', JArr [JStr ''ergonomic-chair''])])) = Inr p \<and>
        desk_preferences p = [] \<and> team p = '''' \<and> preferred_days p = [] \<and>
        equipment_needs p = [JStr ''ergonomic-chair'']) \<and>
   parseQuery (Reply (JObj [(''desk_preferences'', JNum 5),
                            (''equipment_needs'', JArr [JStr ''ergonomic-chair''])]))
     = Inr (DEFAULT_PARSED\<lparr>equipment_needs := [JStr ''ergonomic-chair'']\<rparr>) \<and>
   deskPreferences (effectivePrefs (employeePrefs demo_data (Some ''E-1''))
       (DEFAULT_PARSED\<lparr>equipment_needs := [JStr ''ergonomic-chair'']\<rparr>))
     = stored_list (employeePrefs demo_data (Some ''E-1'')) emp_desk_preferences \<and>
   stored_list (employeePrefs demo_data (Some ''E-1'')) emp_desk_preferences = [JStr ''standing''] \<and>
   (\<exists>res. matchDesks demo_data demo_now (Some ''E-1'')
             (Reply (JObj [(''desk_preferences'', JNum 5),
                           (''equipment_needs'', JArr [JStr ''ergonomic-chair''])])) = Inr res) \<and>
   matchDesks demo_data demo_now (Some ''E-1'')
      (Reply (JObj [(''desk_preferences'', JNum 5),
                    (''equipment_needs'', JArr [JStr ''ergonomic-chair''])])) = Inr [desk_304]"
proof -
  let ?partial = "Reply (JObj [(''desk_preferences'', JNum 5),
                              (''equipment_needs'', JArr [JStr ''ergonomic-chair''])])"
  let ?pp = "DEFAULT_PARSED\<lparr>equipment_needs := [JStr ''ergonomic-chair'']\<rparr>"
  note T = nlp_failure_falls_back [where D = demo_data and employeeId = "Some ''E-2''"
      and reply = TryThrew and now = demo_now]
  note N = nlp_failure_falls_back [where D = demo_data and employeeId = "Some ''E-9''"
      and reply = TryThrew and now = demo_now]
  note P = nlp_failure_falls_back [where D = demo_data and employeeId = "Some ''E-1''"
      and reply = ?partial and now = demo_now]
  have h1: "parseQuery TryThrew = Inr DEFAULT_PARSED"
    using T by (rule conjunct1)
  note S = T [THEN conjunct2, THEN conjunct2, THEN conjunct2, THEN conjunct2, rule_format, OF h1]
  note S9 = N [THEN conjunct2, THEN conjunct2, THEN conjunct2, THEN conjunct2, rule_format, OF h1]
  have st: "stored_list (employeePrefs demo_data (Some ''E-2'')) emp_equipment_needs = [JStr ''dual-monitors'']"
    "stored_list (employeePrefs demo_data (Some ''E-2'')) emp_adjacency_preferences = [JStr ''marketing'']"
    by code_simp+
  have e9: "employeePrefs demo_data (Some ''E-9'') = None"
    by code_simp
  have md: "matchDesks demo_data demo_now (Some ''E-2'') TryThrew = Inr [desk_305, desk_301]"
    by code_simp
  have q: "parseQuery (Reply (JStr ''Sorry, I cannot help with that.'')) = Inr DEFAULT_PARSED"
    using T [THEN conjunct2, THEN conjunct2, THEN conjunct1, rule_format,
        of "JStr ''Sorry, I cannot help with that.''"]
    by simp
  have ob: "\<exists>p. parseQuery (Reply (JObj [(''desk_preferences'', JNum 5), (''team'', JBool True),
                                  (''equipment_needs'', JArr [JStr ''ergonomic-chair''])])) = Inr p \<and>
        desk_preferences p = [] \<and> team p = '''' \<and> preferred_days p = [] \<and>
        equipment_needs p = [JStr ''ergonomic-chair'']"
    using T [THEN conjunct2, THEN conjunct1, rule_format,
        of "[(''desk_preferences'', JNum 5), (''team'', JBool True),
             (''equipment_needs'', JArr [JStr ''ergonomic-chair''])]"]
    by auto
  have pq: "parseQuery ?partial = Inr ?pp"
    by code_simp
  have pe: "desk_preferences ?pp = []" and pa: "\<forall>v\<in>set (adjacency_preferences ?pp). \<exists>s. v = JStr s"
    by (simp_all add: DEFAULT_PARSED_def)
  note F = P [THEN conjunct2, THEN conjunct2, THEN conjunct2, THEN conjunct1, rule_format, OF pq]
  have d1: "deskPreferences (effectivePrefs (employeePrefs demo_data (Some ''E-1'')) ?pp)
     = stored_list (employeePrefs demo_data (Some ''E-1'')) emp_desk_preferences"
    using F [THEN conjunct1] pe by simp
  have r1: "\<exists>res. matchDesks demo_data demo_now (Some ''E-1'') ?partial = Inr res"
    using F [THEN conjunct2, THEN conjunct2, THEN conjunct2, THEN conjunct2, THEN conjunct2,
        THEN conjunct2] pa by simp
  have s1: "stored_list (employeePrefs demo_data (Some ''E-1'')) emp_desk_preferences = [JStr ''standing'']"
    by code_simp
  have m1: "matchDesks demo_data demo_now (Some ''E-1'') ?partial = Inr [desk_304]"
    by code_simp
  have a: "equipNeeds (effectivePrefs (employeePrefs demo_data (Some ''E-2'')) DEFAULT_PARSED)
     = [JStr ''dual-monitors'']"
    and b: "adjPrefs (effectivePrefs (employeePrefs demo_data (Some ''E-2'')) DEFAULT_PARSED)
     = [JStr ''marketing'']"
    using S st by simp_all
  have c: "effectivePrefs (employeePrefs demo_data (Some ''E-9'')) DEFAULT_PARSED =
     \<lparr> deskPreferences = [], finalDeskType = None, equipNeeds = [], adjPrefs = [],
       preferredLocation = '''', accessibilityNeed = '''' \<rparr>"
    using S9 e9 by simp
  show ?thesis
    by (intro conjI h1 md a b e9 c q ob pq d1 s1 r1 m1)
qed

text \<open>
  A reply whose \<^verbatim>\<open>desk_preferences\<close> is a number and whose
  \<^verbatim>\<open>equipment_needs\<close> is a list: the result is not the all-empty default, and the
  equipment needs of the request are the parsed ones, not the stored ones.
\<close>

theorem partial_reply_counterexample:
  "parseQuery (Reply (JObj [(''desk_preferences'', JNum 5),
                            (''equipment_needs'', JArr [JStr ''ergonomic-chair''])]))
     = Inr (DEFAULT_PARSED\<lparr>equipment_needs := [JStr ''ergonomic-chair'']\<rparr>) \<and>
   parseQuery (Reply (JObj [(''desk_preferences'', JNum 5),
                            (''equipment_needs'', JArr [JStr ''ergonomic-chair''])]))
     \<noteq> Inr DEFAULT_PARSED \<and>
   stored_list (employeePrefs demo_data (Some ''E-2'')) emp_equipment_needs = [JStr ''dual-monitors''] \<and>
   equipNeeds (effectivePrefs (employeePrefs demo_data (Some ''E-2''))
                 (DEFAULT_PARSED\<lparr>equipment_needs := [JStr ''ergonomic-chair'']\<rparr>))
     = [JStr ''ergonomic-chair'']"
  by code_simp

text \<open>
  Two replies on which \<open>matchDesks\<close> raises: the JSON text \<^verbatim>\<open>null\<close>, whose
  properties are read outside the \<^verbatim>\<open>try\<close> block, and an adjacency list with an
  element that is not a string.
\<close>

lemma parseQuery_null_reply: "parseQuery (Reply JNull) = Inl TypeError"
  by (simp add: parseQuery_def build_parsed_def)

lemma matchDesks_null_reply: "matchDesks D now employeeId (Reply JNull) = Inl TypeError"
  by (simp add: matchDesks_def parseQuery_null_reply)

lemma matchDesks_number_token:
  "matchDesks demo_data demo_now None (Reply (JObj [(''adjacency_preferences'', JArr [JNum 5])]))
     = Inl TypeError"
  by code_simp

section \<open>Sensor health\<close>

text \<open>The sensor check depends on the sensor's status only.\<close>

lemma sensorOk_ignores_age:
  "sensorOk D now d \<longleftrightarrow>
     (case sensorMap (sensors D) (area_id d) of
        None \<Rightarrow> True
      | Some sn \<Rightarrow> entry_status sn = ''active'')"
  by (simp add: sensorOk_def split: option.splits)

text \<open>
  Claim C1. The claim asks that a desk whose area has a sensor record be returned only
  if the sensor is active and its last reading is at most one hour old. On the sample
  data the sensor of area-002 is active and its last reading is three hours old; the
  sensor check passes D-305 and \<open>matchDesks\<close> returns it.
\<close>

theorem stale_sensor_desk_returned:
  "sensorMap (sensors demo_data) (area_id desk_305)
     = Some \<lparr> entry_status = ''active'', lastReading = 1746597600000 \<rparr> \<and>
   demo_now - 1746597600000 = 3 * (60 * 60 * 1000) \<and>
   sensorOk demo_data demo_now desk_305 \<and>
   matchDesks demo_data demo_now (Some ''E-2'') TryThrew = Inr [desk_305, desk_301]"
  by code_simp

section \<open>Accessibility\<close>

text \<open>
  Claim C3. The claim asks that a desk pass when the need occurs in the location
  description irrespective of case. The description of D-305 is lower-cased and the need
  is not: the need \<^verbatim>\<open>Wheelchair\<close> is contained in
  \<^verbatim>\<open>Wheelchair accessible aisle\<close> irrespective of case, and D-305 is returned for
  \<^verbatim>\<open>wheelchair\<close> and not for \<^verbatim>\<open>Wheelchair\<close>.
\<close>

theorem uppercase_need_rejects_matching_desk:
  "location_description desk_305 = Some ''Wheelchair accessible aisle'' \<and>
   includes_str (toLowerCase ''Wheelchair accessible aisle'') (toLowerCase ''Wheelchair'') \<and>
   \<not> includes_str (toLowerCase ''Wheelchair accessible aisle'') ''Wheelchair'' \<and>
   matchDesks demo_data demo_now None
      (Reply (JObj [(''accessibility_needs'', JStr ''Wheelchair'')])) = Inr [] \<and>
   matchDesks demo_data demo_now None
      (Reply (JObj [(''accessibility_needs'', JStr ''wheelchair'')])) = Inr [desk_305]"
  by code_simp

end
